theory Spec2Isabelle
  imports Main "HOL-Library.AList"
begin

section \<open>Persisted chat history: data model\<close>

text \<open>
  The development follows \<^verbatim>\<open>vscode/src/services/LocalStorageProvider.ts\<close>.
  A JavaScript object used as a dictionary is an association list holding its own
  properties in enumeration order; a well-formed object has every key once
  (\<open>wf_object\<close>). An optional property is an \<open>option\<close>, with \<open>None\<close>
  standing for \<^verbatim>\<open>undefined\<close> and \<^verbatim>\<open>null\<close> alike.
\<close>

text \<open>
  Modelled from the spec: the types \<^verbatim>\<open>SerializedChatMessage\<close>,
  \<^verbatim>\<open>SerializedChatInteraction\<close>, \<^verbatim>\<open>SerializedChatTranscript\<close>,
  \<^verbatim>\<open>ChatHistory\<close>, \<^verbatim>\<open>UserLocalHistory\<close> and \<^verbatim>\<open>AuthStatus\<close> are
  declared in the package \<^verbatim>\<open>@sourcegraph/cody-shared\<close>; the records keep the
  fields of the persisted record layout that the provider reads or writes.
\<close>

record SerializedChatMessage =
  speaker :: string
  msgText :: string
  model :: "string option"

record SerializedChatInteraction =
  humanMessage :: SerializedChatMessage
  assistantMessage :: "SerializedChatMessage option"

record SerializedChatTranscript =
  transcriptId :: string
  chatTitle :: "string option"
  chatModel :: "string option"
  interactions :: "SerializedChatInteraction list"

type_synonym ChatHistory = "(string \<times> SerializedChatTranscript option) list"

record PersistedUserLocalHistory =
  chat :: "ChatHistory option"

type_synonym AccountKeyedChatHistory = "(string \<times> PersistedUserLocalHistory) list"

record AuthStatus =
  endpoint :: string
  username :: string

definition wf_object :: "('k \<times> 'v) list \<Rightarrow> bool" where
  "wf_object obj = distinct (map fst obj)"

definition wf_userHistory :: "PersistedUserLocalHistory \<Rightarrow> bool" where
  "wf_userHistory u = (case chat u of None \<Rightarrow> True | Some c \<Rightarrow> wf_object c)"

definition wf_history :: "AccountKeyedChatHistory \<Rightarrow> bool" where
  "wf_history h = (wf_object h \<and> list_all (\<lambda>e. wf_userHistory (snd e)) h)"

definition wf_stored :: "AccountKeyedChatHistory option \<Rightarrow> bool" where
  "wf_stored v = (case v of None \<Rightarrow> True | Some h \<Rightarrow> wf_history h)"

subsection \<open>JavaScript primitives used by the provider\<close>

text \<open>Truthiness of a value of type \<^verbatim>\<open>string | undefined\<close>: the empty string is falsy.\<close>

definition truthy :: "string option \<Rightarrow> bool" where
  "truthy s = (case s of None \<Rightarrow> False | Some t \<Rightarrow> t \<noteq> [])"

text \<open>The operator \<^verbatim>\<open>??\<close>: only \<^verbatim>\<open>undefined\<close> and \<^verbatim>\<open>null\<close> give way to the default.\<close>

definition nullish :: "'a option \<Rightarrow> 'a \<Rightarrow> 'a" where
  "nullish v d = (case v of None \<Rightarrow> d | Some x \<Rightarrow> x)"

definition Object_entries :: "('k \<times> 'v) list \<Rightarrow> ('k \<times> 'v) list" where
  "Object_entries obj = obj"

text \<open>\<^verbatim>\<open>Object.fromEntries\<close> defines the properties one after the other: a repeated
  key keeps its first position and takes the later value.\<close>

definition Object_fromEntries :: "('k \<times> 'v) list \<Rightarrow> ('k \<times> 'v) list" where
  "Object_fromEntries es = foldl (\<lambda>obj e. AList.update (fst e) (snd e) obj) [] es"

text \<open>\<^verbatim>\<open>Array.prototype.map\<close> with a callback that increments the counter
  \<^verbatim>\<open>neededMigration\<close> of the enclosing function: the counter is passed from one
  call of the callback to the next, in the order of the array.\<close>

fun Array_map :: "('a \<Rightarrow> nat \<Rightarrow> 'b \<times> nat) \<Rightarrow> 'a list \<Rightarrow> nat \<Rightarrow> 'b list \<times> nat" where
  "Array_map f [] n = ([], n)"
| "Array_map f (x # xs) n =
     (case f x n of (y, n1) \<Rightarrow> (case Array_map f xs n1 of (ys, n2) \<Rightarrow> (y # ys, n2)))"

text \<open>The callback \<^verbatim>\<open>([key, value]) => [key, f(value)]\<close> over the entries of an object.\<close>

definition onValue :: "('v \<Rightarrow> nat \<Rightarrow> 'w \<times> nat) \<Rightarrow> ('k \<times> 'v) \<Rightarrow> nat \<Rightarrow> ('k \<times> 'w) \<times> nat" where
  "onValue f e n = (case f (snd e) n of (w, n1) \<Rightarrow> ((fst e, w), n1))"

section \<open>The migration of the \<^verbatim>\<open>chatModel\<close> property\<close>

text \<open>
  \<^verbatim>\<open>migrateAssistantMessage\<close> is the inner function of
  \<^verbatim>\<open>migrateHistoryForChatModelProperty\<close>; its last argument and second result are
  the counter \<^verbatim>\<open>neededMigration\<close> that it increments.
\<close>

definition migrateAssistantMessage ::
  "SerializedChatMessage \<Rightarrow> string option \<Rightarrow> nat \<Rightarrow> SerializedChatMessage \<times> nat" where
  "migrateAssistantMessage assistantMsg mdl neededMigration =
     (if truthy (model assistantMsg) then (assistantMsg, neededMigration)
      else (assistantMsg\<lparr>model := Some (nullish mdl ''unknown'')\<rparr>, neededMigration + 1))"

text \<open>The arrow functions of the nested \<^verbatim>\<open>map\<close> calls, innermost first.\<close>

definition migrateInteraction ::
  "string option \<Rightarrow> SerializedChatInteraction \<Rightarrow> nat \<Rightarrow> SerializedChatInteraction \<times> nat" where
  "migrateInteraction transcriptModel interaction n =
     (case assistantMessage interaction of
        Some m \<Rightarrow>
          (case migrateAssistantMessage m transcriptModel n of
             (m', n1) \<Rightarrow> (interaction\<lparr>assistantMessage := Some m'\<rparr>, n1))
      | None \<Rightarrow> (interaction\<lparr>assistantMessage := None\<rparr>, n))"

definition migrateTranscript ::
  "SerializedChatTranscript option \<Rightarrow> nat \<Rightarrow> SerializedChatTranscript option \<times> nat" where
  "migrateTranscript transcript n =
     (case transcript of
        Some t \<Rightarrow>
          (case Array_map (migrateInteraction (chatModel t)) (interactions t) n of
             (is, n1) \<Rightarrow> (Some (t\<lparr>interactions := is\<rparr>), n1))
      | None \<Rightarrow> (None, n))"

definition migrateUserLocalHistory ::
  "PersistedUserLocalHistory \<Rightarrow> nat \<Rightarrow> PersistedUserLocalHistory \<times> nat" where
  "migrateUserLocalHistory userLocalHistory n =
     (case chat userLocalHistory of
        Some c \<Rightarrow>
          (case Array_map (onValue migrateTranscript) (Object_entries c) n of
             (es, n1) \<Rightarrow> (\<lparr>chat = Some (Object_fromEntries es)\<rparr>, n1))
      | None \<Rightarrow> (\<lparr>chat = Some []\<rparr>, n))"

text \<open>The expression bound to \<^verbatim>\<open>migratedHistory\<close>, with the counter it leaves.\<close>

definition migratedHistoryOf :: "AccountKeyedChatHistory \<Rightarrow> nat \<Rightarrow> AccountKeyedChatHistory \<times> nat" where
  "migratedHistoryOf history n =
     (case Array_map (onValue migrateUserLocalHistory) (Object_entries history) n of
        (es, n1) \<Rightarrow> (Object_fromEntries es, n1))"

text \<open>
  The function returns an object reference. \<open>InputRef\<close> is the reference it was
  given (\<^verbatim>\<open>return history\<close>, and \<^verbatim>\<open>return null\<close> for \<^verbatim>\<open>null\<close>), \<open>FreshObj v\<close> a
  reference to the object that \<^verbatim>\<open>Object.fromEntries\<close> has just allocated, with
  contents \<open>v\<close>. The caller's test \<^verbatim>\<open>history !== migratedHistory\<close> holds exactly for
  \<open>FreshObj\<close>. The second result is what \<^verbatim>\<open>logDebug\<close> is called with: the label
  and the number in the message \<^verbatim>\<open>${neededMigration} chat messages migrated\<close>.
\<close>

datatype 'a returned = InputRef | FreshObj 'a

definition migrateHistoryForChatModelProperty ::
  "AccountKeyedChatHistory option \<Rightarrow> AccountKeyedChatHistory returned \<times> (string \<times> nat) list" where
  "migrateHistoryForChatModelProperty history =
     (case history of
        None \<Rightarrow> (InputRef, [])
      | Some h \<Rightarrow>
          (case migratedHistoryOf h 0 of
             (migratedHistory, neededMigration) \<Rightarrow>
               if neededMigration \<noteq> 0
               then (FreshObj migratedHistory,
                     [(''migrateHistoryForChatModelProperty'', neededMigration)])
               else (InputRef, [])))"

text \<open>The object a returned reference denotes, given the object passed in.\<close>

definition deref :: "'a option \<Rightarrow> 'a returned \<Rightarrow> 'a option" where
  "deref input r = (case r of InputRef \<Rightarrow> input | FreshObj v \<Rightarrow> Some v)"

definition migrated :: "AccountKeyedChatHistory option \<Rightarrow> AccountKeyedChatHistory option" where
  "migrated history = deref history (fst (migrateHistoryForChatModelProperty history))"

subsection \<open>The migration in the words of the specification\<close>

text \<open>
  A second description of the migration, written from the specification and without a
  counter: a present assistant message that already has a non-empty \<^verbatim>\<open>model\<close> is
  left untouched; otherwise its \<^verbatim>\<open>model\<close> becomes the transcript's legacy
  \<^verbatim>\<open>chatModel\<close> if present, else \<^verbatim>\<open>"unknown"\<close>. The \<open>changed_\<close> functions count
  the messages that are changed in this way.
\<close>

definition spec_message :: "string option \<Rightarrow> SerializedChatMessage \<Rightarrow> SerializedChatMessage" where
  "spec_message legacy m =
     (if truthy (model m) then m else m\<lparr>model := Some (nullish legacy ''unknown'')\<rparr>)"

definition changed_message :: "SerializedChatMessage \<Rightarrow> nat" where
  "changed_message m = (if truthy (model m) then 0 else 1)"

definition spec_interaction ::
  "string option \<Rightarrow> SerializedChatInteraction \<Rightarrow> SerializedChatInteraction" where
  "spec_interaction legacy i =
     i\<lparr>assistantMessage := map_option (spec_message legacy) (assistantMessage i)\<rparr>"

definition changed_interaction :: "SerializedChatInteraction \<Rightarrow> nat" where
  "changed_interaction i =
     (case assistantMessage i of None \<Rightarrow> 0 | Some m \<Rightarrow> changed_message m)"

definition spec_transcript ::
  "SerializedChatTranscript option \<Rightarrow> SerializedChatTranscript option" where
  "spec_transcript =
     map_option (\<lambda>t. t\<lparr>interactions := map (spec_interaction (chatModel t)) (interactions t)\<rparr>)"

definition changed_transcript :: "SerializedChatTranscript option \<Rightarrow> nat" where
  "changed_transcript tr =
     (case tr of None \<Rightarrow> 0 | Some t \<Rightarrow> sum_list (map changed_interaction (interactions t)))"

definition spec_chat :: "ChatHistory \<Rightarrow> ChatHistory" where
  "spec_chat c = map (\<lambda>e. (fst e, spec_transcript (snd e))) c"

definition spec_userHistory :: "PersistedUserLocalHistory \<Rightarrow> PersistedUserLocalHistory" where
  "spec_userHistory u = \<lparr>chat = Some (case chat u of None \<Rightarrow> [] | Some c \<Rightarrow> spec_chat c)\<rparr>"

definition changed_userHistory :: "PersistedUserLocalHistory \<Rightarrow> nat" where
  "changed_userHistory u =
     (case chat u of None \<Rightarrow> 0
      | Some c \<Rightarrow> sum_list (map (\<lambda>e. changed_transcript (snd e)) c))"

definition spec_history :: "AccountKeyedChatHistory \<Rightarrow> AccountKeyedChatHistory" where
  "spec_history h = map (\<lambda>e. (fst e, spec_userHistory (snd e))) h"

definition changed_history :: "AccountKeyedChatHistory \<Rightarrow> nat" where
  "changed_history h = sum_list (map (\<lambda>e. changed_userHistory (snd e)) h)"

definition changed_stored :: "AccountKeyedChatHistory option \<Rightarrow> nat" where
  "changed_stored v = (case v of None \<Rightarrow> 0 | Some h \<Rightarrow> changed_history h)"

section \<open>The storage backend and the provider\<close>

datatype error = NotInitialized | BackendReadFailure | BackendWriteFailure | TypeError

text \<open>
  Modelled from the spec: the backend is the host's \<^verbatim>\<open>Memento\<close> (or an
  \<^verbatim>\<open>AsyncMemento\<close> of the same shape), a key/value capability with
  \<^verbatim>\<open>keys\<close>, \<^verbatim>\<open>get(key, defaultValue)\<close> and \<^verbatim>\<open>update(key, value)\<close>, whose
  implementation is not part of the repository. \<open>get\<close> returns the default for a
  missing key. The backend hands out and takes values (it shares no object with its
  caller) and has applied an update before it serves the next call. A \<open>get\<close> that
  fails (\<open>getThrows\<close>) throws or returns a promise that rejects: the adapter passes
  what it gets to \<^verbatim>\<open>Promise.resolve\<close>, and the caller's \<^verbatim>\<open>await\<close> raises the error
  in both cases. An \<open>update\<close> fails in one of two ways: it throws at the call
  (\<open>updateThrows\<close>), or it returns a promise that rejects (\<open>updateRejects\<close>); in
  both the value is not stored. \<open>updateCalls\<close> records every call of \<open>update\<close>, so
  that a write that was issued can be told from none even where it stores an equal
  value.
\<close>

text \<open>The promise that \<open>update\<close> returns.\<close>

datatype promise = Resolves | Rejects error

record 'v Memento =
  cells :: "(string \<times> 'v) list"
  getThrows :: bool
  updateThrows :: bool
  updateRejects :: bool
  updateCalls :: "(string \<times> 'v) list"

definition Memento_keys :: "'v Memento \<Rightarrow> string list" where
  "Memento_keys m = map fst (cells m)"

definition Memento_get :: "string \<Rightarrow> 'v \<Rightarrow> 'v Memento \<Rightarrow> error + 'v" where
  "Memento_get key defaultValue m =
     (if getThrows m then Inl BackendReadFailure
      else Inr (case map_of (cells m) key of None \<Rightarrow> defaultValue | Some v \<Rightarrow> v))"

definition Memento_update ::
  "string \<Rightarrow> 'v \<Rightarrow> 'v Memento \<Rightarrow> (error + promise) \<times> 'v Memento" where
  "Memento_update key v m =
     (if updateThrows m
      then (Inl BackendWriteFailure, m\<lparr>updateCalls := updateCalls m @ [(key, v)]\<rparr>)
      else if updateRejects m
      then (Inr (Rejects BackendWriteFailure),
            m\<lparr>updateCalls := updateCalls m @ [(key, v)]\<rparr>)
      else (Inr Resolves,
            m\<lparr>cells := AList.update key v (cells m),
              updateCalls := updateCalls m @ [(key, v)]\<rparr>))"

text \<open>
  \<^verbatim>\<open>convertToAsyncStore\<close> returns an object whose three methods close over
  \<^verbatim>\<open>store\<close>. Its \<^verbatim>\<open>update\<close> is
  \<^verbatim>\<open>store.update(key, value); return Promise.resolve()\<close>: it calls the backend's
  \<^verbatim>\<open>update\<close> at once, so a backend that throws makes the adapter's \<^verbatim>\<open>update\<close>
  throw; it drops the promise that the backend returns and returns a resolved one, so
  a rejection of the backend's promise reaches nobody.
\<close>

record 'v AsyncMemento =
  store :: "'v Memento"

definition convertToAsyncStore :: "'v Memento \<Rightarrow> 'v AsyncMemento" where
  "convertToAsyncStore s = \<lparr>store = s\<rparr>"

definition AsyncMemento_keys :: "'v AsyncMemento \<Rightarrow> string list" where
  "AsyncMemento_keys am = Memento_keys (store am)"

definition AsyncMemento_get :: "string \<Rightarrow> 'v \<Rightarrow> 'v AsyncMemento \<Rightarrow> error + 'v" where
  "AsyncMemento_get key defaultValue am = Memento_get key defaultValue (store am)"

definition AsyncMemento_update ::
  "string \<Rightarrow> 'v \<Rightarrow> 'v AsyncMemento \<Rightarrow> (error + unit) \<times> 'v AsyncMemento" where
  "AsyncMemento_update key v am =
     (case Memento_update key v (store am) of
        (Inl e, s) \<Rightarrow> (Inl e, am\<lparr>store := s\<rparr>)
      | (Inr dropped, s) \<Rightarrow> (Inr (), am\<lparr>store := s\<rparr>))"

text \<open>
  The state of the singleton \<^verbatim>\<open>localStorage\<close>: the private field \<^verbatim>\<open>_storage\<close>,
  together with what the provider has passed to \<^verbatim>\<open>console.error\<close> and to
  \<^verbatim>\<open>logDebug\<close>. An operation takes the state and returns its result, an error for a
  thrown exception or a rejected promise, with the state it leaves. Operations run one
  after the other, each awaited before the next.
\<close>

record 'v LocalStorage =
  storageField :: "'v AsyncMemento option"
  console :: "error list"
  debugLog :: "(string \<times> nat) list"

type_synonym stored = "AccountKeyedChatHistory option"

definition localStorage :: "'v LocalStorage" where
  "localStorage = \<lparr>storageField = None, console = [], debugLog = []\<rparr>"

definition KEY_LOCAL_HISTORY :: string where
  "KEY_LOCAL_HISTORY = ''cody-local-chatHistory-v2''"

text \<open>The getter \<^verbatim>\<open>storage\<close>.\<close>

definition storage :: "'v LocalStorage \<Rightarrow> error + 'v AsyncMemento" where
  "storage this =
     (case storageField this of None \<Rightarrow> Inl NotInitialized | Some s \<Rightarrow> Inr s)"

definition setStorage :: "'v Memento \<Rightarrow> 'v LocalStorage \<Rightarrow> 'v LocalStorage" where
  "setStorage s this = this\<lparr>storageField := Some (convertToAsyncStore s)\<rparr>"

text \<open>The expressions \<^verbatim>\<open>this.storage.get(key, d)\<close> and \<^verbatim>\<open>this.storage.update(key, v)\<close>.\<close>

definition storage_get :: "string \<Rightarrow> 'v \<Rightarrow> 'v LocalStorage \<Rightarrow> error + 'v" where
  "storage_get key defaultValue this =
     (case storage this of Inl e \<Rightarrow> Inl e | Inr s \<Rightarrow> AsyncMemento_get key defaultValue s)"

definition storage_update ::
  "string \<Rightarrow> 'v \<Rightarrow> 'v LocalStorage \<Rightarrow> (error + unit) \<times> 'v LocalStorage" where
  "storage_update key v this =
     (case storage this of
        Inl e \<Rightarrow> (Inl e, this)
      | Inr s \<Rightarrow>
          (case AsyncMemento_update key v s of
             (r, s1) \<Rightarrow> (r, this\<lparr>storageField := Some s1\<rparr>)))"

text \<open>The handler \<^verbatim>\<open>catch (error) { console.error(error) }\<close> around a block.\<close>

definition catch_console ::
  "(error + unit) \<times> 'v LocalStorage \<Rightarrow> (error + unit) \<times> 'v LocalStorage" where
  "catch_console r =
     (case r of
        (Inl e, this) \<Rightarrow> (Inr (), this\<lparr>console := console this @ [e]\<rparr>)
      | (Inr u, this) \<Rightarrow> (Inr u, this))"

definition getKeyForAuthStatus :: "AuthStatus \<Rightarrow> string" where
  "getKeyForAuthStatus authStatus = endpoint authStatus @ ''-'' @ username authStatus"

text \<open>The expression \<^verbatim>\<open>migratedHistory?.[accountKey] ?? { chat: {} }\<close>.\<close>

definition accountHistory :: "stored \<Rightarrow> string \<Rightarrow> PersistedUserLocalHistory" where
  "accountHistory h accountKey =
     (case h of
        None \<Rightarrow> \<lparr>chat = Some []\<rparr>
      | Some entries \<Rightarrow> nullish (map_of entries accountKey) \<lparr>chat = Some []\<rparr>)"

definition getChatHistory ::
  "AuthStatus \<Rightarrow> stored LocalStorage \<Rightarrow> (error + PersistedUserLocalHistory) \<times> stored LocalStorage" where
  "getChatHistory authStatus this =
     (case storage_get KEY_LOCAL_HISTORY None this of
        Inl e \<Rightarrow> (Inl e, this)
      | Inr history \<Rightarrow>
          (let accountKey = getKeyForAuthStatus authStatus in
           case migrateHistoryForChatModelProperty history of
             (InputRef, logged) \<Rightarrow>
               (Inr (accountHistory history accountKey),
                this\<lparr>debugLog := debugLog this @ logged\<rparr>)
           | (FreshObj migratedHistory, logged) \<Rightarrow>
               (case storage_update KEY_LOCAL_HISTORY (Some migratedHistory)
                       (this\<lparr>debugLog := debugLog this @ logged\<rparr>) of
                  (Inl e, this1) \<Rightarrow> (Inl e, this1)
                | (Inr u, this1) \<Rightarrow>
                    (Inr (accountHistory (Some migratedHistory) accountKey), this1))))"

text \<open>The \<^verbatim>\<open>try\<close> block of \<^verbatim>\<open>setChatHistory\<close>, then the method.\<close>

definition setChatHistory_try ::
  "AuthStatus \<Rightarrow> PersistedUserLocalHistory \<Rightarrow> stored LocalStorage \<Rightarrow>
     (error + unit) \<times> stored LocalStorage" where
  "setChatHistory_try authStatus history this =
     (let key = getKeyForAuthStatus authStatus in
      case storage_get KEY_LOCAL_HISTORY None this of
        Inl e \<Rightarrow> (Inl e, this)
      | Inr fullHistory \<Rightarrow>
          storage_update KEY_LOCAL_HISTORY
            (Some (case fullHistory of
                     Some entries \<Rightarrow> AList.update key history entries
                   | None \<Rightarrow> [(key, history)]))
            this)"

definition setChatHistory ::
  "AuthStatus \<Rightarrow> PersistedUserLocalHistory \<Rightarrow> stored LocalStorage \<Rightarrow>
     (error + unit) \<times> stored LocalStorage" where
  "setChatHistory authStatus history this =
     catch_console (setChatHistory_try authStatus history this)"

text \<open>
  In \<^verbatim>\<open>deleteChatHistory\<close> the test \<^verbatim>\<open>if (userHistory)\<close> is always taken, an object
  being truthy; \<^verbatim>\<open>delete userHistory.chat[chatID]\<close> throws a \<^verbatim>\<open>TypeError\<close> when
  \<^verbatim>\<open>chat\<close> is undefined.
\<close>

definition deleteChatHistory ::
  "AuthStatus \<Rightarrow> string \<Rightarrow> stored LocalStorage \<Rightarrow> (error + unit) \<times> stored LocalStorage" where
  "deleteChatHistory authStatus chatID this =
     (case getChatHistory authStatus this of
        (Inl e, this1) \<Rightarrow> (Inl e, this1)
      | (Inr userHistory, this1) \<Rightarrow>
          catch_console
            (case chat userHistory of
               None \<Rightarrow> (Inl TypeError, this1)
             | Some c \<Rightarrow>
                 setChatHistory authStatus
                   (userHistory\<lparr>chat := Some (AList.delete chatID c)\<rparr>) this1))"

definition removeChatHistory ::
  "AuthStatus \<Rightarrow> stored LocalStorage \<Rightarrow> (error + unit) \<times> stored LocalStorage" where
  "removeChatHistory authStatus this =
     catch_console (setChatHistory authStatus \<lparr>chat = Some []\<rparr> this)"

text \<open>The generic accessors \<^verbatim>\<open>get\<close> and \<^verbatim>\<open>set\<close>.\<close>

definition get :: "string \<Rightarrow> 't option LocalStorage \<Rightarrow> (error + 't option) \<times> 't option LocalStorage" where
  "get key this =
     (case storage_get key None this of Inl e \<Rightarrow> (Inl e, this) | Inr v \<Rightarrow> (Inr v, this))"

definition set_value ::
  "string \<Rightarrow> 't option \<Rightarrow> 't option LocalStorage \<Rightarrow> (error + unit) \<times> 't option LocalStorage" where
  "set_value key v this = catch_console (storage_update key v this)"

text \<open>What the backend holds under the history key, as \<^verbatim>\<open>get\<close> with the default
  \<^verbatim>\<open>null\<close> reads it, and the entry of one account in it.\<close>

definition persisted :: "stored LocalStorage \<Rightarrow> stored" where
  "persisted this =
     (case storageField this of
        None \<Rightarrow> None
      | Some am \<Rightarrow>
          (case map_of (cells (store am)) KEY_LOCAL_HISTORY of None \<Rightarrow> None | Some v \<Rightarrow> v))"

definition storedEntry :: "stored LocalStorage \<Rightarrow> string \<Rightarrow> PersistedUserLocalHistory option" where
  "storedEntry this accountKey =
     (case persisted this of None \<Rightarrow> None | Some entries \<Rightarrow> map_of entries accountKey)"

definition issuedWrites :: "'v LocalStorage \<Rightarrow> (string \<times> 'v) list" where
  "issuedWrites this =
     (case storageField this of None \<Rightarrow> [] | Some am \<Rightarrow> updateCalls (store am))"

text \<open>A configured backend that does not fail and holds a well-formed store.\<close>

definition operational :: "stored LocalStorage \<Rightarrow> bool" where
  "operational this =
     ((case storageField this of
         None \<Rightarrow> False
       | Some am \<Rightarrow>
           \<not> getThrows (store am) \<and> \<not> updateThrows (store am) \<and> \<not> updateRejects (store am))
      \<and> wf_stored (persisted this))"

section \<open>Properties of stores that the claims speak about\<close>

text \<open>Every present assistant message of the store has a non-empty \<^verbatim>\<open>model\<close>.\<close>

definition modelsNonEmpty :: "AccountKeyedChatHistory \<Rightarrow> bool" where
  "modelsNonEmpty h =
     list_all (\<lambda>account.
       case chat (snd account) of
         None \<Rightarrow> True
       | Some c \<Rightarrow>
           list_all (\<lambda>entry.
             case snd entry of
               None \<Rightarrow> True
             | Some t \<Rightarrow>
                 list_all (\<lambda>i.
                   case assistantMessage i of None \<Rightarrow> True | Some m \<Rightarrow> truthy (model m))
                   (interactions t)) c) h"

text \<open>No transcript of the store has the empty string as its legacy \<^verbatim>\<open>chatModel\<close>.\<close>

definition legacyModelsNonEmpty :: "stored \<Rightarrow> bool" where
  "legacyModelsNonEmpty s =
     (case s of
        None \<Rightarrow> True
      | Some h \<Rightarrow>
          list_all (\<lambda>account.
            case chat (snd account) of
              None \<Rightarrow> True
            | Some c \<Rightarrow>
                list_all (\<lambda>entry.
                  case snd entry of None \<Rightarrow> True | Some t \<Rightarrow> chatModel t \<noteq> Some []) c) h)"

text \<open>The state once the backend has accepted \<^verbatim>\<open>update(key, v)\<close>.\<close>

definition written :: "string \<Rightarrow> 'v \<Rightarrow> 'v LocalStorage \<Rightarrow> 'v LocalStorage" where
  "written key v this =
     (case storageField this of
        None \<Rightarrow> this
      | Some am \<Rightarrow>
          this\<lparr>storageField :=
                 Some (am\<lparr>store :=
                           (store am)\<lparr>cells := AList.update key v (cells (store am)),
                                      updateCalls := updateCalls (store am) @ [(key, v)]\<rparr>\<rparr>)\<rparr>)"

section \<open>Example stores\<close>

text \<open>
  The store of the specification's example, with the transcript's legacy
  \<^verbatim>\<open>chatModel\<close> and the \<^verbatim>\<open>model\<close> of its one assistant message as parameters:
  one account \<^verbatim>\<open>ep-u1\<close> with one chat \<^verbatim>\<open>c1\<close> of one interaction.
\<close>

definition exampleTranscript :: "string option \<Rightarrow> string option \<Rightarrow> SerializedChatTranscript" where
  "exampleTranscript legacy answered =
     \<lparr>transcriptId = ''c1'', chatTitle = None, chatModel = legacy,
      interactions =
        [\<lparr>humanMessage = \<lparr>speaker = ''human'', msgText = ''hello'', model = None\<rparr>,
          assistantMessage =
            Some \<lparr>speaker = ''assistant'', msgText = ''hi'', model = answered\<rparr>\<rparr>]\<rparr>"

definition exampleStore :: "string option \<Rightarrow> string option \<Rightarrow> AccountKeyedChatHistory" where
  "exampleStore legacy answered =
     [(''ep-u1'', \<lparr>chat = Some [(''c1'', Some (exampleTranscript legacy answered))]\<rparr>)]"

text \<open>Backends and an account for the examples.\<close>

definition exampleBackend :: "stored \<Rightarrow> stored Memento" where
  "exampleBackend v =
     \<lparr>cells = [(KEY_LOCAL_HISTORY, v)], getThrows = False, updateThrows = False,
      updateRejects = False, updateCalls = []\<rparr>"

definition emptyBackend :: "stored Memento" where
  "emptyBackend =
     \<lparr>cells = [], getThrows = False, updateThrows = False, updateRejects = False,
      updateCalls = []\<rparr>"

definition exampleAccount :: AuthStatus where
  "exampleAccount = \<lparr>endpoint = ''ep'', username = ''u1''\<rparr>"

definition otherAccount :: AuthStatus where
  "otherAccount = \<lparr>endpoint = ''ep'', username = ''u2''\<rparr>"

text \<open>
  A store with two accounts. The account \<^verbatim>\<open>ep-u1\<close> has the chats \<^verbatim>\<open>c1\<close> and
  \<^verbatim>\<open>c2\<close>, both with a model on their assistant message; the account \<^verbatim>\<open>ep-u2\<close>
  has the chat \<^verbatim>\<open>c1\<close>, whose assistant message has the model given.
\<close>

definition twoAccounts :: "string option \<Rightarrow> AccountKeyedChatHistory" where
  "twoAccounts answered =
     [(''ep-u1'',
       \<lparr>chat = Some [(''c1'', Some (exampleTranscript (Some ''gpt-4'') (Some ''gpt-4''))),
                     (''c2'', Some (exampleTranscript None (Some ''claude'')))]\<rparr>),
      (''ep-u2'', \<lparr>chat = Some [(''c1'', Some (exampleTranscript (Some ''gpt-4'') answered))]\<rparr>)]"

section \<open>The migration computes what the specification describes\<close>

text \<open>
  On a well-formed store the counter only ever grows by the number of messages that
  are changed, and \<^verbatim>\<open>Object.fromEntries\<close> gives back the entries it was built
  from, so the nested \<^verbatim>\<open>map\<close> calls compute \<open>spec_history\<close> and leave the counter
  at \<open>changed_history\<close>.
\<close>

lemma Array_map_pure:
  assumes "\<And>x n. x \<in> set xs \<Longrightarrow> f x n = (g x, n + c x)"
  shows "Array_map f xs n = (map g xs, n + sum_list (map c xs))"
  using assms by (induction xs arbitrary: n) (simp_all add: add.assoc)

lemma update_fresh_key:
  "k \<notin> fst ` set obj \<Longrightarrow> AList.update k v obj = obj @ [(k, v)]"
  by (induction obj) auto

lemma foldl_update_distinct:
  "distinct (map fst (obj @ es)) \<Longrightarrow>
   foldl (\<lambda>obj e. AList.update (fst e) (snd e) obj) obj es = obj @ es"
proof (induction es arbitrary: obj)
  case Nil
  then show ?case by simp
next
  case (Cons e es)
  have fresh: "fst e \<notin> fst ` set obj" using Cons.prems by auto
  have "distinct (map fst ((obj @ [e]) @ es))" using Cons.prems by simp
  from Cons.IH [OF this] show ?case
    by (simp add: update_fresh_key [OF fresh])
qed

lemma Object_fromEntries_wf:
  "wf_object es \<Longrightarrow> Object_fromEntries es = es"
  using foldl_update_distinct [of "[]" es]
  by (simp add: Object_fromEntries_def wf_object_def)

lemma migrateAssistantMessage_eq:
  "migrateAssistantMessage m legacy n = (spec_message legacy m, n + changed_message m)"
  by (simp add: migrateAssistantMessage_def spec_message_def changed_message_def)

lemma migrateInteraction_eq:
  "migrateInteraction legacy i n = (spec_interaction legacy i, n + changed_interaction i)"
  by (cases "assistantMessage i")
     (simp_all add: migrateInteraction_def spec_interaction_def changed_interaction_def
        migrateAssistantMessage_eq)

lemma migrateTranscript_eq:
  "migrateTranscript tr n = (spec_transcript tr, n + changed_transcript tr)"
  by (cases tr)
     (simp_all add: migrateTranscript_def spec_transcript_def changed_transcript_def
        Array_map_pure [where g = "spec_interaction legacy" and c = changed_interaction for legacy]
        migrateInteraction_eq)

lemma onValue_eq:
  "(\<And>v n. f v n = (g v, n + c v)) \<Longrightarrow>
   onValue f e n = ((fst e, g (snd e)), n + c (snd e))"
  by (simp add: onValue_def)

lemma map_fst_spec_chat: "map fst (spec_chat c) = map fst c"
  by (simp add: spec_chat_def comp_def)

lemma map_fst_spec_history: "map fst (spec_history h) = map fst h"
  by (simp add: spec_history_def comp_def)

lemma migrateUserLocalHistory_eq:
  assumes "wf_userHistory u"
  shows "migrateUserLocalHistory u n = (spec_userHistory u, n + changed_userHistory u)"
proof (cases "chat u")
  case None
  then show ?thesis
    by (simp add: migrateUserLocalHistory_def spec_userHistory_def changed_userHistory_def)
next
  case (Some c)
  have am: "Array_map (onValue migrateTranscript) c n =
      (spec_chat c, n + sum_list (map (\<lambda>e. changed_transcript (snd e)) c))"
    unfolding spec_chat_def
    by (rule Array_map_pure) (simp add: onValue_eq [OF migrateTranscript_eq])
  have "wf_object (spec_chat c)"
    using assms Some by (simp add: wf_userHistory_def wf_object_def map_fst_spec_chat)
  then show ?thesis
    using Some am
    by (simp add: migrateUserLocalHistory_def spec_userHistory_def changed_userHistory_def
        Object_entries_def Object_fromEntries_wf)
qed

lemma migratedHistoryOf_eq:
  assumes "wf_history h"
  shows "migratedHistoryOf h n = (spec_history h, n + changed_history h)"
proof -
  have each: "\<And>e k. e \<in> set h \<Longrightarrow>
      onValue migrateUserLocalHistory e k =
        ((fst e, spec_userHistory (snd e)), k + changed_userHistory (snd e))"
    using assms
    by (simp add: wf_history_def list_all_iff onValue_def migrateUserLocalHistory_eq)
  have am: "Array_map (onValue migrateUserLocalHistory) h n =
      (spec_history h, n + changed_history h)"
    unfolding spec_history_def changed_history_def
    by (rule Array_map_pure) (simp add: each)
  have "wf_object (spec_history h)"
    using assms by (simp add: wf_history_def wf_object_def map_fst_spec_history)
  then show ?thesis
    using am by (simp add: migratedHistoryOf_def Object_entries_def Object_fromEntries_wf)
qed

lemma migrateHistory_Some:
  assumes "wf_history h"
  shows "migrateHistoryForChatModelProperty (Some h) =
     (if changed_history h \<noteq> 0
      then (FreshObj (spec_history h), [(''migrateHistoryForChatModelProperty'', changed_history h)])
      else (InputRef, []))"
  by (simp add: migrateHistoryForChatModelProperty_def migratedHistoryOf_eq [OF assms])

subsection \<open>The described migration is idempotent and keeps stores well-formed\<close>

lemma spec_message_idem: "spec_message legacy (spec_message legacy m) = spec_message legacy m"
  by (simp add: spec_message_def)

lemma spec_interaction_idem:
  "spec_interaction legacy (spec_interaction legacy i) = spec_interaction legacy i"
  by (cases "assistantMessage i") (simp_all add: spec_interaction_def spec_message_idem)

lemma spec_transcript_idem: "spec_transcript (spec_transcript tr) = spec_transcript tr"
  by (cases tr) (simp_all add: spec_transcript_def spec_interaction_idem)

lemma spec_chat_idem: "spec_chat (spec_chat c) = spec_chat c"
  by (simp add: spec_chat_def spec_transcript_idem)

lemma spec_userHistory_idem: "spec_userHistory (spec_userHistory u) = spec_userHistory u"
  by (cases "chat u") (simp_all add: spec_userHistory_def spec_chat_idem, simp add: spec_chat_def)

lemma wf_spec_userHistory: "wf_userHistory u \<Longrightarrow> wf_userHistory (spec_userHistory u)"
  by (cases "chat u")
     (simp_all add: wf_userHistory_def spec_userHistory_def wf_object_def map_fst_spec_chat)

lemma spec_history_idem: "spec_history (spec_history h) = spec_history h"
  by (simp add: spec_history_def spec_userHistory_idem)

lemma wf_spec_history: "wf_history h \<Longrightarrow> wf_history (spec_history h)"
proof -
  assume wf: "wf_history h"
  have "wf_object (spec_history h)"
    using wf by (simp add: wf_history_def wf_object_def map_fst_spec_history)
  moreover have "list_all (\<lambda>e. wf_userHistory (snd e)) (spec_history h)"
    using wf by (simp add: wf_history_def list_all_iff spec_history_def wf_spec_userHistory)
  ultimately show ?thesis by (simp add: wf_history_def)
qed

lemma migrated_Some:
  "wf_history h \<Longrightarrow>
   migrated (Some h) = Some (if changed_history h = 0 then h else spec_history h)"
  by (simp add: migrated_def deref_def migrateHistory_Some)

lemma migrated_None: "migrated None = None"
  by (simp add: migrated_def deref_def migrateHistoryForChatModelProperty_def)

lemma wf_migrated: "wf_stored s \<Longrightarrow> wf_stored (migrated s)"
  by (cases s) (simp_all add: migrated_None migrated_Some wf_stored_def wf_spec_history)

lemma migrated_idem: "wf_stored s \<Longrightarrow> migrated (migrated s) = migrated s"
  by (cases s)
     (simp_all add: migrated_None migrated_Some wf_stored_def wf_spec_history spec_history_idem)

subsection \<open>The example stores\<close>

lemma wf_exampleStore: "wf_history (exampleStore legacy answered)"
  by (simp add: wf_history_def wf_object_def wf_userHistory_def exampleStore_def)

lemma changed_exampleStore:
  "changed_history (exampleStore legacy answered) = (if truthy answered then 0 else 1)"
  by (simp add: changed_history_def changed_userHistory_def changed_transcript_def
      changed_interaction_def changed_message_def exampleStore_def exampleTranscript_def)

lemma spec_exampleStore:
  "spec_history (exampleStore legacy None) =
   exampleStore legacy (Some (nullish legacy ''unknown''))"
  by (simp add: spec_history_def spec_userHistory_def spec_chat_def spec_transcript_def
      spec_interaction_def spec_message_def exampleStore_def exampleTranscript_def truthy_def)

subsection \<open>Looking into a migrated store\<close>

lemma map_of_on_values:
  "map_of (map (\<lambda>e. (fst e, f (snd e))) xs) k = map_option f (map_of xs k)"
  by (induction xs) auto

lemma changed_history_zero:
  assumes "changed_history h = 0" and "(accountKey, u) \<in> set h" and "chat u = Some c"
    and "(chatID, Some t) \<in> set c" and "i \<in> set (interactions t)"
    and "assistantMessage i = Some m"
  shows "truthy (model m)"
proof -
  have "changed_userHistory u = 0"
    using assms(1,2) by (force simp: changed_history_def)
  then have "changed_transcript (Some t) = 0"
    using assms(3,4) by (force simp: changed_userHistory_def)
  then have "changed_interaction i = 0"
    using assms(5) by (simp add: changed_transcript_def)
  then show ?thesis
    using assms(6) by (simp add: changed_interaction_def changed_message_def split: if_splits)
qed

lemma in_spec_history:
  "(k, u) \<in> set (spec_history h) \<Longrightarrow> \<exists>u0. (k, u0) \<in> set h \<and> u = spec_userHistory u0"
  by (auto simp: spec_history_def)

lemma in_spec_chat:
  "(k, tr) \<in> set (spec_chat c) \<Longrightarrow> \<exists>tr0. (k, tr0) \<in> set c \<and> tr = spec_transcript tr0"
  by (auto simp: spec_chat_def)

lemma spec_message_model:
  "truthy (model (spec_message legacy m0))
   \<or> (legacy = Some [] \<and> model (spec_message legacy m0) = Some [])"
  by (cases legacy) (auto simp: spec_message_def truthy_def nullish_def)

subsection \<open>After a migration no message needs changing, the empty legacy model apart\<close>

lemma changed_spec_message:
  "legacy \<noteq> Some [] \<Longrightarrow> changed_message (spec_message legacy m) = 0"
  using spec_message_model [of legacy m] by (simp add: changed_message_def)

lemma changed_spec_interaction:
  "legacy \<noteq> Some [] \<Longrightarrow> changed_interaction (spec_interaction legacy i) = 0"
  by (cases "assistantMessage i")
     (simp_all add: changed_interaction_def spec_interaction_def changed_spec_message)

lemma changed_spec_transcript:
  "(case tr of None \<Rightarrow> True | Some t \<Rightarrow> chatModel t \<noteq> Some []) \<Longrightarrow>
   changed_transcript (spec_transcript tr) = 0"
  by (cases tr)
     (simp_all add: changed_transcript_def spec_transcript_def changed_spec_interaction)

lemma changed_spec_userHistory:
  assumes "case chat u of
             None \<Rightarrow> True
           | Some c \<Rightarrow>
               list_all (\<lambda>entry.
                 case snd entry of None \<Rightarrow> True | Some t \<Rightarrow> chatModel t \<noteq> Some []) c"
  shows "changed_userHistory (spec_userHistory u) = 0"
proof (cases "chat u")
  case None
  then show ?thesis by (simp add: changed_userHistory_def spec_userHistory_def)
next
  case (Some c)
  then have "\<forall>entry \<in> set c. changed_transcript (spec_transcript (snd entry)) = 0"
    using assms by (simp add: list_all_iff changed_spec_transcript)
  then show ?thesis
    using Some by (simp add: changed_userHistory_def spec_userHistory_def spec_chat_def comp_def)
qed

lemma changed_spec_history:
  assumes "legacyModelsNonEmpty (Some h)"
  shows "changed_history (spec_history h) = 0"
proof -
  have "\<forall>account \<in> set h. changed_userHistory (spec_userHistory (snd account)) = 0"
    using assms by (simp add: legacyModelsNonEmpty_def list_all_iff changed_spec_userHistory)
  then show ?thesis by (simp add: changed_history_def spec_history_def comp_def)
qed

lemma changed_migrated:
  assumes "wf_stored s" and "legacyModelsNonEmpty s"
  shows "changed_stored (migrated s) = 0"
proof (cases s)
  case None
  then show ?thesis by (simp add: migrated_None changed_stored_def)
next
  case (Some h)
  then have wf: "wf_history h" using assms(1) by (simp add: wf_stored_def)
  show ?thesis
    using Some assms(2) changed_spec_history [of h]
    by (simp add: migrated_Some [OF wf] changed_stored_def)
qed

section \<open>The provider on a configured backend\<close>

lemma storage_get_configured:
  "storageField this = Some am \<Longrightarrow>
   storage_get key d this =
     (if getThrows (store am) then Inl BackendReadFailure
      else Inr (case map_of (cells (store am)) key of None \<Rightarrow> d | Some v \<Rightarrow> v))"
  by (simp add: storage_get_def storage_def AsyncMemento_get_def Memento_get_def)

lemma storage_get_history:
  "storageField this = Some am \<Longrightarrow> \<not> getThrows (store am) \<Longrightarrow>
   storage_get KEY_LOCAL_HISTORY None this = Inr (persisted this)"
  by (simp add: storage_get_configured persisted_def)

lemma storage_get_unconfigured:
  "storageField this = None \<Longrightarrow> storage_get key d this = Inl NotInitialized"
  by (simp add: storage_get_def storage_def)

lemma storage_update_unconfigured:
  "storageField this = None \<Longrightarrow> storage_update key v this = (Inl NotInitialized, this)"
  by (simp add: storage_update_def storage_def)

lemma storage_update_accepted:
  "storageField this = Some am \<Longrightarrow> \<not> updateThrows (store am) \<Longrightarrow>
   \<not> updateRejects (store am) \<Longrightarrow>
   storage_update key v this = (Inr (), written key v this)"
  by (simp add: storage_update_def storage_def AsyncMemento_update_def Memento_update_def
      written_def)

lemma storage_update_thrown:
  "storageField this = Some am \<Longrightarrow> updateThrows (store am) \<Longrightarrow>
   storage_update key v this =
     (Inl BackendWriteFailure,
      this\<lparr>storageField :=
             Some (am\<lparr>store := (store am)\<lparr>updateCalls := updateCalls (store am) @ [(key, v)]\<rparr>\<rparr>)\<rparr>)"
  by (simp add: storage_update_def storage_def AsyncMemento_update_def Memento_update_def)

lemma storage_update_rejected:
  "storageField this = Some am \<Longrightarrow> \<not> updateThrows (store am) \<Longrightarrow>
   updateRejects (store am) \<Longrightarrow>
   storage_update key v this =
     (Inr (),
      this\<lparr>storageField :=
             Some (am\<lparr>store := (store am)\<lparr>updateCalls := updateCalls (store am) @ [(key, v)]\<rparr>\<rparr>)\<rparr>)"
  by (simp add: storage_update_def storage_def AsyncMemento_update_def Memento_update_def)

lemma persisted_written:
  "storageField this = Some am \<Longrightarrow> persisted (written KEY_LOCAL_HISTORY v this) = v"
  by (simp add: persisted_def written_def AList.update_conv')


lemma console_written: "console (written key v this) = console this"
  by (simp add: written_def split: option.splits)

lemma debugLog_written: "debugLog (written key v this) = debugLog this"
  by (simp add: written_def split: option.splits)

lemma storageField_written:
  "storageField this = Some am \<Longrightarrow>
   \<exists>am'. storageField (written key v this) = Some am'
       \<and> getThrows (store am') = getThrows (store am)
       \<and> updateThrows (store am') = updateThrows (store am)
       \<and> updateRejects (store am') = updateRejects (store am)"
  by (simp add: written_def)

lemma persisted_debugLog [simp]: "persisted (this\<lparr>debugLog := l\<rparr>) = persisted this"
  by (simp add: persisted_def)

lemma issuedWrites_debugLog [simp]: "issuedWrites (this\<lparr>debugLog := l\<rparr>) = issuedWrites this"
  by (simp add: issuedWrites_def)

lemma persisted_console [simp]: "persisted (this\<lparr>console := l\<rparr>) = persisted this"
  by (simp add: persisted_def)

lemma issuedWrites_console [simp]: "issuedWrites (this\<lparr>console := l\<rparr>) = issuedWrites this"
  by (simp add: issuedWrites_def)

lemma debugLog_append_Nil [simp]: "this\<lparr>debugLog := debugLog this\<rparr> = this"
  by simp

lemma getChatHistory_read:
  assumes "storageField this = Some am" and "\<not> getThrows (store am)"
  shows "getChatHistory authStatus this =
     (case migrateHistoryForChatModelProperty (persisted this) of
        (InputRef, logged) \<Rightarrow>
          (Inr (accountHistory (persisted this) (getKeyForAuthStatus authStatus)),
           this\<lparr>debugLog := debugLog this @ logged\<rparr>)
      | (FreshObj v, logged) \<Rightarrow>
          (case storage_update KEY_LOCAL_HISTORY (Some v)
                  (this\<lparr>debugLog := debugLog this @ logged\<rparr>) of
             (Inl e, this1) \<Rightarrow> (Inl e, this1)
           | (Inr u, this1) \<Rightarrow>
               (Inr (accountHistory (Some v) (getKeyForAuthStatus authStatus)), this1)))"
  by (simp add: getChatHistory_def storage_get_history [OF assms] Let_def)

lemma migrateHistory_unchanged:
  assumes "wf_stored p" and "changed_stored p = 0"
  shows "migrateHistoryForChatModelProperty p = (InputRef, [])" and "migrated p = p"
proof -
  show "migrateHistoryForChatModelProperty p = (InputRef, [])"
  proof (cases p)
    case None
    then show ?thesis by (simp add: migrateHistoryForChatModelProperty_def)
  next
    case (Some h)
    then have "wf_history h" "changed_history h = 0"
      using assms by (simp_all add: wf_stored_def changed_stored_def)
    then show ?thesis using Some by (simp add: migrateHistory_Some)
  qed
  then show "migrated p = p" by (simp add: migrated_def deref_def)
qed

lemma migrateHistory_changed:
  assumes "wf_stored p" and "changed_stored p \<noteq> 0"
  obtains h where "p = Some h"
    and "migrated p = Some (spec_history h)"
    and "migrateHistoryForChatModelProperty p =
           (FreshObj (spec_history h),
            [(''migrateHistoryForChatModelProperty'', changed_stored p)])"
proof (cases p)
  case None
  then show ?thesis using assms(2) by (simp add: changed_stored_def)
next
  case (Some h)
  then have "wf_history h" "changed_history h \<noteq> 0"
    using assms by (simp_all add: wf_stored_def changed_stored_def)
  then have "migrated p = Some (spec_history h)"
     and "migrateHistoryForChatModelProperty p =
           (FreshObj (spec_history h),
            [(''migrateHistoryForChatModelProperty'', changed_stored p)])"
    using Some by (simp_all add: migrateHistory_Some migrated_Some changed_stored_def)
  with Some that show ?thesis by blast
qed

lemma getChatHistory_operational:
  assumes op: "operational this"
  shows "getChatHistory authStatus this =
     (Inr (accountHistory (migrated (persisted this)) (getKeyForAuthStatus authStatus)),
      if changed_stored (persisted this) = 0 then this
      else written KEY_LOCAL_HISTORY (migrated (persisted this))
             (this\<lparr>debugLog := debugLog this @
                [(''migrateHistoryForChatModelProperty'', changed_stored (persisted this))]\<rparr>))"
proof -
  from op obtain am where am: "storageField this = Some am"
      "\<not> getThrows (store am)" "\<not> updateThrows (store am)" "\<not> updateRejects (store am)"
    and wf: "wf_stored (persisted this)"
    by (auto simp: operational_def split: option.splits)
  show ?thesis
  proof (cases "changed_stored (persisted this) = 0")
    case True
    then show ?thesis
      by (simp add: getChatHistory_read [OF am(1,2)] migrateHistory_unchanged [OF wf True])
  next
    case False
    let ?this1 = "this\<lparr>debugLog := debugLog this @
        [(''migrateHistoryForChatModelProperty'', changed_stored (persisted this))]\<rparr>"
    from migrateHistory_changed [OF wf False] obtain h where
      h: "migrated (persisted this) = Some (spec_history h)"
         "migrateHistoryForChatModelProperty (persisted this) =
           (FreshObj (spec_history h),
            [(''migrateHistoryForChatModelProperty'', changed_stored (persisted this))])"
      by blast
    have field: "storageField ?this1 = Some am" using am(1) by simp
    have upd: "storage_update KEY_LOCAL_HISTORY (Some (spec_history h)) ?this1 =
        (Inr (), written KEY_LOCAL_HISTORY (Some (spec_history h)) ?this1)"
      by (rule storage_update_accepted [OF field am(3) am(4)])
    show ?thesis
      using False by (simp add: getChatHistory_read [OF am(1,2)] h upd)
  qed
qed

lemma accountHistory_absent:
  assumes "wf_stored p" and "(case p of None \<Rightarrow> None | Some es \<Rightarrow> map_of es k) = None"
  shows "accountHistory (migrated p) k = \<lparr>chat = Some []\<rparr>"
proof (cases p)
  case None
  then show ?thesis by (simp add: migrated_None accountHistory_def)
next
  case (Some h)
  then have wf: "wf_history h" using assms(1) by (simp add: wf_stored_def)
  have "map_of h k = None" using assms(2) Some by simp
  then show ?thesis
    using Some
    by (simp add: migrated_Some [OF wf] accountHistory_def nullish_def spec_history_def
        map_of_on_values)
qed


subsection \<open>The example backends\<close>

lemma operational_example: "wf_stored v \<Longrightarrow> operational (setStorage (exampleBackend v) localStorage)"
  by (simp add: operational_def setStorage_def convertToAsyncStore_def exampleBackend_def
      localStorage_def persisted_def)

lemma persisted_example: "persisted (setStorage (exampleBackend v) localStorage) = v"
  by (simp add: setStorage_def convertToAsyncStore_def exampleBackend_def
      localStorage_def persisted_def)

lemma operational_empty: "operational (setStorage emptyBackend localStorage)"
  by (simp add: operational_def setStorage_def convertToAsyncStore_def emptyBackend_def
      localStorage_def persisted_def wf_stored_def)

lemma persisted_empty: "persisted (setStorage emptyBackend localStorage) = None"
  by (simp add: setStorage_def convertToAsyncStore_def emptyBackend_def
      localStorage_def persisted_def)

lemma storageField_example:
  "storageField (setStorage b localStorage) = Some (convertToAsyncStore b)"
  by (simp add: setStorage_def)


section \<open>Writing the history of an account\<close>

lemma catch_console_simps:
  "catch_console (Inl e, this) = (Inr (), this\<lparr>console := console this @ [e]\<rparr>)"
  "catch_console (Inr u, this) = (Inr u, this)"
  by (simp_all add: catch_console_def)

lemma fst_catch_console: "fst (catch_console r) = Inr ()"
  by (cases r) (auto simp: catch_console_def split: sum.splits)

lemma setChatHistory_try_configured:
  assumes "storageField this = Some am" and "\<not> getThrows (store am)"
  shows "setChatHistory_try authStatus history this =
     storage_update KEY_LOCAL_HISTORY
       (Some (case persisted this of
                Some entries \<Rightarrow> AList.update (getKeyForAuthStatus authStatus) history entries
              | None \<Rightarrow> [(getKeyForAuthStatus authStatus, history)]))
       this"
  by (simp add: setChatHistory_try_def storage_get_history [OF assms] Let_def)

lemma setChatHistory_try_read_failure:
  assumes "storageField this = Some am" and "getThrows (store am)"
  shows "setChatHistory_try authStatus history this = (Inl BackendReadFailure, this)"
  using assms by (simp add: setChatHistory_try_def storage_get_configured Let_def)

lemma persisted_thrown:
  "storageField this = Some am \<Longrightarrow>
   persisted
     (this\<lparr>storageField :=
            Some (am\<lparr>store := (store am)\<lparr>updateCalls := updateCalls (store am) @ [w]\<rparr>\<rparr>)\<rparr>)
   = persisted this"
  by (simp add: persisted_def)

section \<open>Deleting a chat and the entries of other accounts\<close>

lemma storedEntry_console [simp]: "storedEntry (this\<lparr>console := l\<rparr>) k = storedEntry this k"
  by (simp add: storedEntry_def)

lemma storedEntry_thrown:
  "storageField this = Some am \<Longrightarrow>
   storedEntry
     (this\<lparr>storageField :=
            Some (am\<lparr>store := (store am)\<lparr>updateCalls := updateCalls (store am) @ [w]\<rparr>\<rparr>)\<rparr>) k
   = storedEntry this k"
  by (simp add: storedEntry_def persisted_thrown)

lemma storedEntry_written:
  "storageField this = Some am \<Longrightarrow>
   storedEntry (written KEY_LOCAL_HISTORY v this) k =
     (case v of None \<Rightarrow> None | Some entries \<Rightarrow> map_of entries k)"
  by (simp add: storedEntry_def persisted_written)

lemma setChatHistory_accepted:
  assumes "storageField this = Some am" and "\<not> getThrows (store am)"
    and "\<not> updateThrows (store am)" and "\<not> updateRejects (store am)"
  shows "setChatHistory authStatus history this =
     (Inr (),
      written KEY_LOCAL_HISTORY
        (Some (case persisted this of
                 Some entries \<Rightarrow> AList.update (getKeyForAuthStatus authStatus) history entries
               | None \<Rightarrow> [(getKeyForAuthStatus authStatus, history)]))
        this)"
  by (simp add: setChatHistory_def setChatHistory_try_configured [OF assms(1,2)]
      storage_update_accepted [OF assms(1,3,4)] catch_console_simps)

lemma setChatHistory_frame:
  assumes other: "k \<noteq> getKeyForAuthStatus authStatus"
  shows "storedEntry (snd (setChatHistory authStatus history this)) k = storedEntry this k"
proof (cases "storageField this")
  case None
  then show ?thesis
    by (simp add: setChatHistory_def setChatHistory_try_def storage_get_unconfigured
        catch_console_simps)
next
  case (Some am)
  show ?thesis
  proof (cases "getThrows (store am)")
    case True
    then show ?thesis
      by (simp add: setChatHistory_def setChatHistory_try_read_failure [OF Some]
          catch_console_simps)
  next
    case reads: False
    show ?thesis
    proof (cases "updateThrows (store am)")
      case True
      then show ?thesis
        using storedEntry_thrown [OF Some]
        by (simp add: setChatHistory_def setChatHistory_try_configured [OF Some reads]
            storage_update_thrown [OF Some] catch_console_simps)
    next
      case throws: False
      show ?thesis
      proof (cases "updateRejects (store am)")
        case True
        then show ?thesis
          using storedEntry_thrown [OF Some]
          by (simp add: setChatHistory_def setChatHistory_try_configured [OF Some reads]
              storage_update_rejected [OF Some throws] catch_console_simps)
      next
        case False
        have "storedEntry (snd (setChatHistory authStatus history this)) k =
            (case persisted this of
               Some entries \<Rightarrow>
                 map_of (AList.update (getKeyForAuthStatus authStatus) history entries) k
             | None \<Rightarrow> map_of [(getKeyForAuthStatus authStatus, history)] k)"
          by (simp add: setChatHistory_accepted [OF Some reads throws False]
              storedEntry_written [OF Some] split: option.splits)
        also have "\<dots> = storedEntry this k"
          using other by (simp add: storedEntry_def AList.update_conv' split: option.splits)
        finally show ?thesis .
      qed
    qed
  qed
qed

lemma removeChatHistory_eq:
  "removeChatHistory authStatus this = setChatHistory authStatus \<lparr>chat = Some []\<rparr> this"
proof -
  obtain r s where rs: "setChatHistory authStatus \<lparr>chat = Some []\<rparr> this = (r, s)"
    by (cases "setChatHistory authStatus \<lparr>chat = Some []\<rparr> this")
  have "fst (setChatHistory authStatus \<lparr>chat = Some []\<rparr> this) = Inr ()"
    by (simp add: setChatHistory_def fst_catch_console)
  then have "r = Inr ()" using rs by simp
  then show ?thesis by (simp add: removeChatHistory_def rs catch_console_simps)
qed

text \<open>The state \<^verbatim>\<open>getChatHistory\<close> leaves on an operational backend.\<close>

lemma after_getChatHistory:
  assumes op: "operational this"
  obtains am1 where "storageField (snd (getChatHistory authStatus this)) = Some am1"
    and "\<not> getThrows (store am1)" and "\<not> updateThrows (store am1)"
    and "\<not> updateRejects (store am1)"
    and "persisted (snd (getChatHistory authStatus this)) = migrated (persisted this)"
    and "console (snd (getChatHistory authStatus this)) = console this"
proof -
  from op obtain am where am: "storageField this = Some am"
      "\<not> getThrows (store am)" "\<not> updateThrows (store am)" "\<not> updateRejects (store am)"
    and wf: "wf_stored (persisted this)"
    by (auto simp: operational_def split: option.splits)
  show ?thesis
  proof (cases "changed_stored (persisted this) = 0")
    case True
    have same: "snd (getChatHistory authStatus this) = this"
      by (simp add: getChatHistory_operational [OF op] True)
    show ?thesis
    proof (rule that [of am])
      show "storageField (snd (getChatHistory authStatus this)) = Some am"
        by (simp only: same am(1))
      show "persisted (snd (getChatHistory authStatus this)) = migrated (persisted this)"
        by (simp only: same migrateHistory_unchanged(2) [OF wf True])
      show "console (snd (getChatHistory authStatus this)) = console this"
        by (simp only: same)
    qed (rule am(2), rule am(3), rule am(4))
  next
    case False
    let ?logged = "this\<lparr>debugLog := debugLog this @
        [(''migrateHistoryForChatModelProperty'', changed_stored (persisted this))]\<rparr>"
    have after: "snd (getChatHistory authStatus this)
        = written KEY_LOCAL_HISTORY (migrated (persisted this)) ?logged"
      by (simp add: getChatHistory_operational [OF op] False)
    have field: "storageField ?logged = Some am" using am(1) by simp
    from storageField_written [OF field, of KEY_LOCAL_HISTORY "migrated (persisted this)"]
    obtain am1 where am1: "storageField (written KEY_LOCAL_HISTORY (migrated (persisted this)) ?logged)
          = Some am1"
        "getThrows (store am1) = getThrows (store am)"
        "updateThrows (store am1) = updateThrows (store am)"
        "updateRejects (store am1) = updateRejects (store am)"
      by blast
    show ?thesis
    proof (rule that [of am1])
      show "storageField (snd (getChatHistory authStatus this)) = Some am1"
        by (simp only: after am1(1))
      show "\<not> getThrows (store am1)" using am1(2) am(2) by simp
      show "\<not> updateThrows (store am1)" using am1(3) am(3) by simp
      show "\<not> updateRejects (store am1)" using am1(4) am(4) by simp
      show "persisted (snd (getChatHistory authStatus this)) = migrated (persisted this)"
        by (simp only: after persisted_written [OF field])
      show "console (snd (getChatHistory authStatus this)) = console this"
        by (simp add: after console_written)
    qed
  qed
qed

lemma deleteChatHistory_operational:
  assumes op: "operational this"
  shows "fst (deleteChatHistory authStatus chatID this) = Inr ()"
    and "persisted (snd (deleteChatHistory authStatus chatID this)) =
      (case chat (accountHistory (migrated (persisted this)) (getKeyForAuthStatus authStatus)) of
         None \<Rightarrow> migrated (persisted this)
       | Some c \<Rightarrow>
           Some (case migrated (persisted this) of
                   Some entries \<Rightarrow>
                     AList.update (getKeyForAuthStatus authStatus)
                       \<lparr>chat = Some (AList.delete chatID c)\<rparr> entries
                 | None \<Rightarrow>
                     [(getKeyForAuthStatus authStatus, \<lparr>chat = Some (AList.delete chatID c)\<rparr>)]))"
proof -
  let ?k = "getKeyForAuthStatus authStatus"
  let ?u = "accountHistory (migrated (persisted this)) ?k"
  obtain s1 where got: "getChatHistory authStatus this = (Inr ?u, s1)"
    by (simp add: getChatHistory_operational [OF op])
  then have s1: "snd (getChatHistory authStatus this) = s1" by simp
  from after_getChatHistory [OF op, of authStatus] obtain am1 where
    am1: "storageField s1 = Some am1" "\<not> getThrows (store am1)" "\<not> updateThrows (store am1)"
      "\<not> updateRejects (store am1)"
    and p1: "persisted s1 = migrated (persisted this)"
    unfolding s1 by blast
  have del: "deleteChatHistory authStatus chatID this =
      catch_console
        (case chat ?u of
           None \<Rightarrow> (Inl TypeError, s1)
         | Some c \<Rightarrow>
             setChatHistory authStatus (?u\<lparr>chat := Some (AList.delete chatID c)\<rparr>) s1)"
    by (simp add: deleteChatHistory_def got)
  show "fst (deleteChatHistory authStatus chatID this) = Inr ()"
    by (simp add: del fst_catch_console)
  show "persisted (snd (deleteChatHistory authStatus chatID this)) =
      (case chat ?u of
         None \<Rightarrow> migrated (persisted this)
       | Some c \<Rightarrow>
           Some (case migrated (persisted this) of
                   Some entries \<Rightarrow> AList.update ?k \<lparr>chat = Some (AList.delete chatID c)\<rparr> entries
                 | None \<Rightarrow> [(?k, \<lparr>chat = Some (AList.delete chatID c)\<rparr>)]))"
  proof (cases "chat ?u")
    case None
    then show ?thesis by (simp add: del catch_console_simps p1)
  next
    case (Some c)
    have upd: "?u\<lparr>chat := Some (AList.delete chatID c)\<rparr> = \<lparr>chat = Some (AList.delete chatID c)\<rparr>"
      by (cases ?u) simp
    show ?thesis
      using Some
      by (simp add: del upd setChatHistory_accepted [OF am1] catch_console_simps
          persisted_written [OF am1(1)] p1)
  qed
qed

lemma storedEntry_migrated:
  assumes "wf_stored p"
  shows "(case migrated p of None \<Rightarrow> None | Some entries \<Rightarrow> map_of entries k) =
     (if changed_stored p = 0 then (case p of None \<Rightarrow> None | Some entries \<Rightarrow> map_of entries k)
      else map_option spec_userHistory
             (case p of None \<Rightarrow> None | Some entries \<Rightarrow> map_of entries k))"
proof (cases p)
  case None
  then show ?thesis by (simp add: migrated_None changed_stored_def)
next
  case (Some h)
  then have "wf_history h" using assms by (simp add: wf_stored_def)
  then show ?thesis
    using Some
    by (simp add: migrated_Some changed_stored_def spec_history_def map_of_on_values)
qed

subsection \<open>The example accounts\<close>

lemma key_exampleAccount: "getKeyForAuthStatus exampleAccount = ''ep-u1''"
  by (simp add: getKeyForAuthStatus_def exampleAccount_def)

lemma key_otherAccount: "getKeyForAuthStatus otherAccount = ''ep-u2''"
  by (simp add: getKeyForAuthStatus_def otherAccount_def)

lemma storedEntry_example:
  "storedEntry (setStorage (exampleBackend (Some h)) localStorage) k = map_of h k"
  by (simp add: storedEntry_def persisted_example)

lemma wf_twoAccounts: "wf_history (twoAccounts answered)"
  by (simp add: wf_history_def wf_object_def wf_userHistory_def twoAccounts_def)

lemma changed_twoAccounts:
  "changed_history (twoAccounts answered) = (if truthy answered then 0 else 1)"
  by (simp add: changed_history_def changed_userHistory_def changed_transcript_def
      changed_interaction_def changed_message_def twoAccounts_def exampleTranscript_def
      truthy_def)

lemma spec_twoAccounts: "spec_history (twoAccounts None) = twoAccounts (Some ''gpt-4'')"
  by (simp add: spec_history_def spec_userHistory_def spec_chat_def spec_transcript_def
      spec_interaction_def spec_message_def twoAccounts_def exampleTranscript_def truthy_def
      nullish_def)

lemma entry_exampleStore:
  "map_of (exampleStore legacy answered) ''ep-u1''
     = Some \<lparr>chat = Some [(''c1'', Some (exampleTranscript legacy answered))]\<rparr>"
  by (simp add: exampleStore_def)

lemma update_exampleStore:
  "AList.update ''ep-u1'' u (exampleStore legacy answered) = [(''ep-u1'', u)]"
  by (simp add: exampleStore_def)

lemma entries_twoAccounts:
  "map_of (twoAccounts answered) ''ep-u1''
     = Some \<lparr>chat = Some [(''c1'', Some (exampleTranscript (Some ''gpt-4'') (Some ''gpt-4''))),
                          (''c2'', Some (exampleTranscript None (Some ''claude'')))]\<rparr>"
  "map_of (twoAccounts answered) ''ep-u2''
     = Some \<lparr>chat = Some [(''c1'', Some (exampleTranscript (Some ''gpt-4'') answered))]\<rparr>"
  by (simp_all add: twoAccounts_def)

lemma userHistory_eq: "chat u = x \<Longrightarrow> u = \<lparr>chat = x\<rparr>"
  by (cases u) simp

section \<open>The model field after the migration\<close>

text \<open>
  Claim C1 says that after the migration every present assistant message has a
  non-empty \<^verbatim>\<open>model\<close>. The fallback is \<^verbatim>\<open>model ?? 'unknown'\<close>, which keeps a
  legacy \<^verbatim>\<open>chatModel\<close> that is the empty string: the example store with
  \<^verbatim>\<open>chatModel: ""\<close> migrates to a store whose assistant message has the empty
  string as its \<^verbatim>\<open>model\<close>.
\<close>

theorem migration_can_leave_empty_model:
  "wf_history (exampleStore (Some []) None)
   \<and> migrated (Some (exampleStore (Some []) None)) = Some (exampleStore (Some []) (Some []))
   \<and> \<not> modelsNonEmpty (exampleStore (Some []) (Some []))"
proof -
  have "migrated (Some (exampleStore (Some []) None)) = Some (exampleStore (Some []) (Some []))"
    by (simp add: migrated_Some wf_exampleStore changed_exampleStore spec_exampleStore
        truthy_def nullish_def)
  moreover have "\<not> modelsNonEmpty (exampleStore (Some []) (Some []))"
    by (simp add: modelsNonEmpty_def exampleStore_def exampleTranscript_def truthy_def)
  ultimately show ?thesis by (simp add: wf_exampleStore)
qed

text \<open>
  Claim C1, as amended. After the migration of a well-formed store, every present
  assistant message has a non-empty \<^verbatim>\<open>model\<close>, unless the legacy \<^verbatim>\<open>chatModel\<close>
  of its transcript is the empty string, and then its \<^verbatim>\<open>model\<close> is set to that
  empty string. Each such message comes from a message of the same chat of the same
  account before the migration: it is that message if that had a non-empty
  \<^verbatim>\<open>model\<close>, and else that message with \<^verbatim>\<open>model\<close> set to the transcript's
  \<^verbatim>\<open>chatModel\<close> when that is present and to \<^verbatim>\<open>"unknown"\<close> when it is absent.
\<close>

theorem migration_model_invariant:
  assumes wf: "wf_history h"
    and result: "migrated (Some h) = Some h'"
    and account: "(accountKey, u) \<in> set h'"
    and chats: "chat u = Some c"
    and transcript: "(chatID, Some t) \<in> set c"
    and interaction: "i \<in> set (interactions t)"
    and message: "assistantMessage i = Some m"
  shows "(truthy (model m) \<or> (chatModel t = Some [] \<and> model m = Some []))
       \<and> (\<exists>u0 c0 t0 i0 m0.
             (accountKey, u0) \<in> set h \<and> chat u0 = Some c0 \<and> (chatID, Some t0) \<in> set c0
           \<and> i0 \<in> set (interactions t0) \<and> assistantMessage i0 = Some m0
           \<and> chatModel t0 = chatModel t
           \<and> m = (if truthy (model m0) then m0
                  else m0\<lparr>model := Some (case chatModel t0 of
                                            Some legacy \<Rightarrow> legacy
                                          | None \<Rightarrow> ''unknown'')\<rparr>))"
proof (cases "changed_history h = 0")
  case True
  then have same: "h' = h" using result by (simp add: migrated_Some [OF wf])
  have kept: "truthy (model m)"
    using changed_history_zero [OF True] account chats transcript interaction message same
    by blast
  then have rule: "m = (if truthy (model m) then m
                  else m\<lparr>model := Some (case chatModel t of
                                           Some legacy \<Rightarrow> legacy
                                         | None \<Rightarrow> ''unknown'')\<rparr>)"
    by simp
  have source: "(accountKey, u) \<in> set h" using account same by simp
  from source chats transcript interaction message rule kept show ?thesis by blast
next
  case False
  then have rebuilt: "h' = spec_history h" using result by (simp add: migrated_Some [OF wf])
  from account rebuilt obtain u0 where u0: "(accountKey, u0) \<in> set h" "u = spec_userHistory u0"
    using in_spec_history by blast
  from chats u0(2) transcript obtain c0 where c0: "chat u0 = Some c0" "c = spec_chat c0"
    by (cases "chat u0") (auto simp: spec_userHistory_def)
  from transcript c0(2) obtain tr0 where tr0: "(chatID, tr0) \<in> set c0" "Some t = spec_transcript tr0"
    using in_spec_chat by blast
  from tr0(2) obtain t0 where t0: "tr0 = Some t0"
      "t = t0\<lparr>interactions := map (spec_interaction (chatModel t0)) (interactions t0)\<rparr>"
    by (cases tr0) (auto simp: spec_transcript_def)
  from interaction t0(2) obtain i0 where i0: "i0 \<in> set (interactions t0)"
      "i = spec_interaction (chatModel t0) i0"
    by auto
  from message i0(2) obtain m0 where m0: "assistantMessage i0 = Some m0"
      "m = spec_message (chatModel t0) m0"
    by (cases "assistantMessage i0") (auto simp: spec_interaction_def)
  have legacy: "chatModel t0 = chatModel t" using t0(2) by simp
  have settled: "truthy (model m) \<or> (chatModel t = Some [] \<and> model m = Some [])"
    using spec_message_model [of "chatModel t0" m0] m0(2) legacy by simp
  have rule: "m = (if truthy (model m0) then m0
                  else m0\<lparr>model := Some (case chatModel t0 of
                                            Some legacy \<Rightarrow> legacy
                                          | None \<Rightarrow> ''unknown'')\<rparr>)"
    using m0(2) by (simp add: spec_message_def nullish_def)
  from u0(1) c0(1) tr0(1) t0(1) i0(1) m0(1) legacy rule settled show ?thesis by blast
qed

theorem migration_model_invariant_witness:
  "wf_history (exampleStore (Some ''gpt-4'') None)
   \<and> migrated (Some (exampleStore (Some ''gpt-4'') None))
       = Some (exampleStore (Some ''gpt-4'') (Some ''gpt-4''))
   \<and> (''ep-u1'', \<lparr>chat = Some [(''c1'', Some (exampleTranscript (Some ''gpt-4'') (Some ''gpt-4'')))]\<rparr>)
       \<in> set (exampleStore (Some ''gpt-4'') (Some ''gpt-4''))
   \<and> truthy (model \<lparr>speaker = ''assistant'', msgText = ''hi'', model = Some ''gpt-4''\<rparr>)"
proof -
  let ?h = "exampleStore (Some ''gpt-4'') None"
  let ?t = "exampleTranscript (Some ''gpt-4'') (Some ''gpt-4'')"
  let ?m = "\<lparr>speaker = ''assistant'', msgText = ''hi'', model = Some ''gpt-4''\<rparr>"
  let ?i = "\<lparr>humanMessage = \<lparr>speaker = ''human'', msgText = ''hello'', model = None\<rparr>,
             assistantMessage = Some ?m\<rparr>"
  have wf: "wf_history ?h" by (rule wf_exampleStore)
  have result: "migrated (Some ?h) = Some (exampleStore (Some ''gpt-4'') (Some ''gpt-4''))"
    by (simp add: migrated_Some [OF wf] changed_exampleStore spec_exampleStore
        truthy_def nullish_def)
  have account: "(''ep-u1'', \<lparr>chat = Some [(''c1'', Some ?t)]\<rparr>)
      \<in> set (exampleStore (Some ''gpt-4'') (Some ''gpt-4''))"
    by (simp add: exampleStore_def)
  have chats: "chat \<lparr>chat = Some [(''c1'', Some ?t)]\<rparr> = Some [(''c1'', Some ?t)]" by simp
  have transcript: "(''c1'', Some ?t) \<in> set [(''c1'', Some ?t)]" by simp
  have interaction: "?i \<in> set (interactions ?t)" by (simp add: exampleTranscript_def)
  have message: "assistantMessage ?i = Some ?m" by simp
  from migration_model_invariant [OF wf result account chats transcript interaction message]
  show ?thesis
    using wf result account by (simp add: exampleTranscript_def)
qed

section \<open>Idempotence of the migration\<close>

text \<open>
  Claim C2 says that the migration, applied to an already-migrated store, returns the
  reference it was given. The test for a message that needs changing is the
  truthiness of its \<^verbatim>\<open>model\<close>, and the fallback \<^verbatim>\<open>model ?? 'unknown'\<close> keeps a
  legacy \<^verbatim>\<open>chatModel\<close> that is the empty string: the store that the migration
  makes of the example store with \<^verbatim>\<open>chatModel: ""\<close> is counted as changed when it
  is migrated again, and comes back as a fresh object with equal contents.
\<close>

theorem remigration_returns_fresh_object:
  "migrated (Some (exampleStore (Some []) None)) = Some (exampleStore (Some []) (Some []))
   \<and> migrateHistoryForChatModelProperty (Some (exampleStore (Some []) (Some [])))
       = (FreshObj (exampleStore (Some []) (Some [])),
          [(''migrateHistoryForChatModelProperty'', 1)])
   \<and> fst (migrateHistoryForChatModelProperty (Some (exampleStore (Some []) (Some []))))
       \<noteq> InputRef"
proof -
  have once: "migrated (Some (exampleStore (Some []) None))
      = Some (exampleStore (Some []) (Some []))"
    by (simp add: migrated_Some wf_exampleStore changed_exampleStore spec_exampleStore
        truthy_def nullish_def)
  have fixed: "spec_history (exampleStore (Some []) (Some [])) = exampleStore (Some []) (Some [])"
    using spec_history_idem [of "exampleStore (Some []) None"]
    by (simp add: spec_exampleStore nullish_def)
  have again: "migrateHistoryForChatModelProperty (Some (exampleStore (Some []) (Some [])))
      = (FreshObj (exampleStore (Some []) (Some [])),
         [(''migrateHistoryForChatModelProperty'', 1)])"
    by (simp add: migrateHistory_Some wf_exampleStore changed_exampleStore truthy_def fixed)
  from once again show ?thesis by simp
qed

text \<open>
  Claim C2, as amended. For every well-formed store: the migration returns the
  reference it was given exactly when no message needs changing (no present
  assistant message lacks a non-empty \<^verbatim>\<open>model\<close>); migrating the result of a
  migration gives a store equal to the result of the first migration; and when no
  transcript has the empty string as its legacy \<^verbatim>\<open>chatModel\<close>, no message of the
  migrated store needs changing, so that migrating an already-migrated store returns
  the reference it was given.
\<close>

theorem migration_idempotent:
  assumes "wf_stored s"
  shows "(changed_stored s = 0 \<longrightarrow> fst (migrateHistoryForChatModelProperty s) = InputRef)
       \<and> (fst (migrateHistoryForChatModelProperty s) = InputRef \<longrightarrow> changed_stored s = 0)
       \<and> migrated (migrated s) = migrated s
       \<and> (legacyModelsNonEmpty s \<longrightarrow>
            changed_stored (migrated s) = 0
          \<and> fst (migrateHistoryForChatModelProperty (migrated s)) = InputRef)"
proof -
  have reference: "(changed_stored s = 0 \<longrightarrow> fst (migrateHistoryForChatModelProperty s) = InputRef)
       \<and> (fst (migrateHistoryForChatModelProperty s) = InputRef \<longrightarrow> changed_stored s = 0)"
  proof (cases s)
    case None
    then show ?thesis
      by (simp add: migrateHistoryForChatModelProperty_def changed_stored_def)
  next
    case (Some h)
    then have wf: "wf_history h" using assms by (simp add: wf_stored_def)
    show ?thesis
      using Some by (simp add: migrateHistory_Some [OF wf] changed_stored_def)
  qed
  have "value": "migrated (migrated s) = migrated s"
    by (rule migrated_idem [OF assms])
  have again: "legacyModelsNonEmpty s \<longrightarrow>
      changed_stored (migrated s) = 0
      \<and> fst (migrateHistoryForChatModelProperty (migrated s)) = InputRef"
  proof
    assume legacy: "legacyModelsNonEmpty s"
    have settled: "changed_stored (migrated s) = 0"
      by (rule changed_migrated [OF assms legacy])
    from migrateHistory_unchanged(1) [OF wf_migrated [OF assms] settled] settled
    show "changed_stored (migrated s) = 0
      \<and> fst (migrateHistoryForChatModelProperty (migrated s)) = InputRef"
      by simp
  qed
  from reference "value" again show ?thesis by blast
qed

theorem migration_idempotent_witness:
  "wf_stored (Some (exampleStore (Some ''gpt-4'') None))
   \<and> legacyModelsNonEmpty (Some (exampleStore (Some ''gpt-4'') None))
   \<and> migrated (Some (exampleStore (Some ''gpt-4'') None))
       = Some (exampleStore (Some ''gpt-4'') (Some ''gpt-4''))
   \<and> fst (migrateHistoryForChatModelProperty (Some (exampleStore (Some ''gpt-4'') None)))
       = FreshObj (exampleStore (Some ''gpt-4'') (Some ''gpt-4''))
   \<and> fst (migrateHistoryForChatModelProperty
            (Some (exampleStore (Some ''gpt-4'') (Some ''gpt-4'')))) = InputRef
   \<and> migrated (Some (exampleStore (Some ''gpt-4'') (Some ''gpt-4'')))
       = Some (exampleStore (Some ''gpt-4'') (Some ''gpt-4''))"
proof -
  let ?s = "Some (exampleStore (Some ''gpt-4'') None)"
  have wf: "wf_stored ?s"
    by (simp add: wf_stored_def wf_exampleStore)
  have legacy: "legacyModelsNonEmpty ?s"
    by (simp add: legacyModelsNonEmpty_def exampleStore_def exampleTranscript_def)
  have once: "migrated ?s = Some (exampleStore (Some ''gpt-4'') (Some ''gpt-4''))"
    by (simp add: migrated_Some wf_exampleStore changed_exampleStore spec_exampleStore
        truthy_def nullish_def)
  have fresh: "fst (migrateHistoryForChatModelProperty ?s)
      = FreshObj (exampleStore (Some ''gpt-4'') (Some ''gpt-4''))"
    by (simp add: migrateHistory_Some wf_exampleStore changed_exampleStore spec_exampleStore
        truthy_def nullish_def)
  from migration_idempotent [OF wf] legacy once
  have "fst (migrateHistoryForChatModelProperty
              (Some (exampleStore (Some ''gpt-4'') (Some ''gpt-4'')))) = InputRef"
    and "migrated (Some (exampleStore (Some ''gpt-4'') (Some ''gpt-4'')))
          = Some (exampleStore (Some ''gpt-4'') (Some ''gpt-4''))"
    by simp_all
  with wf legacy once fresh show ?thesis by simp
qed

section \<open>What the migration does to each interaction\<close>

text \<open>
  Claim C3. Take any interaction of any transcript of any account of a well-formed
  store. If its assistant message is present and has no \<^verbatim>\<open>model\<close> set (none, or
  the empty string), then after the migration the message at the same place is that
  message with \<^verbatim>\<open>model\<close> set to the transcript's \<^verbatim>\<open>chatModel\<close> if present, else
  to \<^verbatim>\<open>"unknown"\<close>; a message that has a model is the same message afterwards; an
  interaction without assistant message is the same interaction afterwards. The
  counter ends at the number of messages changed, \<open>changed_history\<close>, which counts one
  for each present assistant message without a model, and that number is what is
  logged. The witness is the specification's example, with count 1.
\<close>

theorem migration_sets_missing_model:
  assumes wf: "wf_history h"
    and account: "map_of h accountKey = Some u"
    and chats: "chat u = Some c"
    and transcript: "map_of c chatID = Some (Some t)"
    and position: "j < length (interactions t)"
    and result: "migrated (Some h) = Some h'"
  shows "(\<exists>u' c' t'.
            map_of h' accountKey = Some u' \<and> chat u' = Some c'
          \<and> map_of c' chatID = Some (Some t')
          \<and> length (interactions t') = length (interactions t)
          \<and> (case assistantMessage (interactions t ! j) of
                None \<Rightarrow> interactions t' ! j = interactions t ! j
              | Some m \<Rightarrow>
                  assistantMessage (interactions t' ! j) =
                    Some (if truthy (model m) then m
                          else m\<lparr>model := Some (case chatModel t of
                                                   Some legacy \<Rightarrow> legacy
                                                 | None \<Rightarrow> ''unknown'')\<rparr>)))
       \<and> snd (migratedHistoryOf h 0) = changed_history h
       \<and> snd (migrateHistoryForChatModelProperty (Some h)) =
           (if changed_history h = 0 then []
            else [(''migrateHistoryForChatModelProperty'', changed_history h)])"
proof -
  have counter: "snd (migratedHistoryOf h 0) = changed_history h"
    by (simp add: migratedHistoryOf_eq [OF wf])
  have logged: "snd (migrateHistoryForChatModelProperty (Some h)) =
      (if changed_history h = 0 then []
       else [(''migrateHistoryForChatModelProperty'', changed_history h)])"
    by (simp add: migrateHistory_Some [OF wf])
  have located: "\<exists>u' c' t'.
            map_of h' accountKey = Some u' \<and> chat u' = Some c'
          \<and> map_of c' chatID = Some (Some t')
          \<and> length (interactions t') = length (interactions t)
          \<and> (case assistantMessage (interactions t ! j) of
                None \<Rightarrow> interactions t' ! j = interactions t ! j
              | Some m \<Rightarrow>
                  assistantMessage (interactions t' ! j) =
                    Some (if truthy (model m) then m
                          else m\<lparr>model := Some (case chatModel t of
                                                   Some legacy \<Rightarrow> legacy
                                                 | None \<Rightarrow> ''unknown'')\<rparr>))"
  proof (cases "changed_history h = 0")
    case True
    then have same: "h' = h" using result by (simp add: migrated_Some [OF wf])
    have "interactions t ! j \<in> set (interactions t)" using position by simp
    then have "\<And>m. assistantMessage (interactions t ! j) = Some m \<Longrightarrow> truthy (model m)"
      using changed_history_zero [OF True map_of_SomeD [OF account] chats map_of_SomeD [OF transcript]]
      by blast
    then show ?thesis
      using same account chats transcript by (auto split: option.splits)
  next
    case False
    then have rebuilt: "h' = spec_history h" using result by (simp add: migrated_Some [OF wf])
    let ?t' = "t\<lparr>interactions := map (spec_interaction (chatModel t)) (interactions t)\<rparr>"
    have 1: "map_of h' accountKey = Some (spec_userHistory u)"
      using account by (simp add: rebuilt spec_history_def map_of_on_values)
    have 2: "chat (spec_userHistory u) = Some (spec_chat c)"
      using chats by (simp add: spec_userHistory_def)
    have 3: "map_of (spec_chat c) chatID = Some (Some ?t')"
      using transcript by (simp add: spec_chat_def map_of_on_values spec_transcript_def)
    have 4: "length (interactions ?t') = length (interactions t)" by simp
    have 5: "case assistantMessage (interactions t ! j) of
                None \<Rightarrow> interactions ?t' ! j = interactions t ! j
              | Some m \<Rightarrow>
                  assistantMessage (interactions ?t' ! j) =
                    Some (if truthy (model m) then m
                          else m\<lparr>model := Some (case chatModel t of
                                                   Some legacy \<Rightarrow> legacy
                                                 | None \<Rightarrow> ''unknown'')\<rparr>)"
      using position
      by (simp add: spec_interaction_def spec_message_def nullish_def split: option.splits)
    from 1 2 3 4 5 show ?thesis by blast
  qed
  from located counter logged show ?thesis by blast
qed

theorem migration_sets_missing_model_witness:
  "wf_history (exampleStore (Some ''gpt-4'') None)
   \<and> map_of (exampleStore (Some ''gpt-4'') None) ''ep-u1''
       = Some \<lparr>chat = Some [(''c1'', Some (exampleTranscript (Some ''gpt-4'') None))]\<rparr>
   \<and> migrated (Some (exampleStore (Some ''gpt-4'') None))
       = Some (exampleStore (Some ''gpt-4'') (Some ''gpt-4''))
   \<and> (\<exists>u' c' t'.
          map_of (exampleStore (Some ''gpt-4'') (Some ''gpt-4'')) ''ep-u1'' = Some u'
        \<and> chat u' = Some c' \<and> map_of c' ''c1'' = Some (Some t')
        \<and> length (interactions t') = 1
        \<and> assistantMessage (interactions t' ! 0)
            = Some \<lparr>speaker = ''assistant'', msgText = ''hi'', model = Some ''gpt-4''\<rparr>)
   \<and> snd (migratedHistoryOf (exampleStore (Some ''gpt-4'') None) 0) = 1
   \<and> snd (migrateHistoryForChatModelProperty (Some (exampleStore (Some ''gpt-4'') None)))
       = [(''migrateHistoryForChatModelProperty'', 1)]"
proof -
  let ?h = "exampleStore (Some ''gpt-4'') None"
  let ?t = "exampleTranscript (Some ''gpt-4'') None"
  have wf: "wf_history ?h" by (rule wf_exampleStore)
  have account: "map_of ?h ''ep-u1'' = Some \<lparr>chat = Some [(''c1'', Some ?t)]\<rparr>"
    by (simp add: exampleStore_def)
  have chats: "chat \<lparr>chat = Some [(''c1'', Some ?t)]\<rparr> = Some [(''c1'', Some ?t)]" by simp
  have transcript: "map_of [(''c1'', Some ?t)] ''c1'' = Some (Some ?t)" by simp
  have position: "0 < length (interactions ?t)" by (simp add: exampleTranscript_def)
  have result: "migrated (Some ?h) = Some (exampleStore (Some ''gpt-4'') (Some ''gpt-4''))"
    by (simp add: migrated_Some [OF wf] changed_exampleStore spec_exampleStore
        truthy_def nullish_def)
  have count: "changed_history ?h = 1"
    by (simp add: changed_exampleStore truthy_def)
  from migration_sets_missing_model [OF wf account chats transcript position result]
  show ?thesis
    using wf account result count
    by (simp add: exampleTranscript_def truthy_def)
qed

section \<open>Reading the history of an account\<close>

text \<open>
  Claim C4. On a configured backend that does not fail, \<^verbatim>\<open>getChatHistory\<close> for an
  account that has no entry in the persisted store, the store being absent altogether
  included, returns the empty history \<^verbatim>\<open>{chat: {}}\<close>: a value, neither
  \<^verbatim>\<open>null\<close> nor an error.
\<close>

theorem getChatHistory_no_entry:
  assumes "operational this"
    and "storedEntry this (getKeyForAuthStatus authStatus) = None"
  shows "fst (getChatHistory authStatus this) = Inr \<lparr>chat = Some []\<rparr>"
proof -
  have wf: "wf_stored (persisted this)" using assms(1) by (simp add: operational_def)
  have "(case persisted this of None \<Rightarrow> None
         | Some es \<Rightarrow> map_of es (getKeyForAuthStatus authStatus)) = None"
    using assms(2) by (simp add: storedEntry_def)
  from accountHistory_absent [OF wf this] show ?thesis
    by (simp add: getChatHistory_operational [OF assms(1)])
qed

theorem getChatHistory_no_entry_witness:
  "operational (setStorage emptyBackend localStorage)
   \<and> storedEntry (setStorage emptyBackend localStorage) (getKeyForAuthStatus exampleAccount) = None
   \<and> fst (getChatHistory exampleAccount (setStorage emptyBackend localStorage))
       = Inr \<lparr>chat = Some []\<rparr>
   \<and> operational (setStorage (exampleBackend (Some (exampleStore (Some ''gpt-4'') None))) localStorage)
   \<and> storedEntry (setStorage (exampleBackend (Some (exampleStore (Some ''gpt-4'') None))) localStorage)
        (getKeyForAuthStatus otherAccount) = None
   \<and> fst (getChatHistory otherAccount
            (setStorage (exampleBackend (Some (exampleStore (Some ''gpt-4'') None))) localStorage))
       = Inr \<lparr>chat = Some []\<rparr>"
proof -
  let ?empty = "setStorage emptyBackend localStorage"
  let ?full = "setStorage (exampleBackend (Some (exampleStore (Some ''gpt-4'') None))) localStorage"
  have op1: "operational ?empty" by (rule operational_empty)
  have none1: "storedEntry ?empty (getKeyForAuthStatus exampleAccount) = None"
    by (simp add: storedEntry_def persisted_empty)
  have op2: "operational ?full"
    by (simp add: operational_example wf_stored_def wf_exampleStore)
  have none2: "storedEntry ?full (getKeyForAuthStatus otherAccount) = None"
    by (simp add: storedEntry_def persisted_example exampleStore_def getKeyForAuthStatus_def
        otherAccount_def)
  from getChatHistory_no_entry [OF op1 none1] getChatHistory_no_entry [OF op2 none2]
  show ?thesis using op1 none1 op2 none2 by simp
qed

section \<open>The write-back of a migrated store\<close>



section \<open>Failures of the backend\<close>

text \<open>
  Claim C6 says that a failing read surfaces as the empty history, and that a failing
  write in \<^verbatim>\<open>setChatHistory\<close> is caught and logged. The method \<^verbatim>\<open>getChatHistory\<close>
  has no handler around \<^verbatim>\<open>await this.storage.get(...)\<close>: on a backend whose
  \<^verbatim>\<open>get\<close> fails, the caller receives the error. And the adapter does not await the
  promise of the backend's \<^verbatim>\<open>update\<close>: on a backend whose \<^verbatim>\<open>update\<close> rejects,
  \<^verbatim>\<open>setChatHistory\<close> returns normally with nothing stored and nothing passed to
  \<^verbatim>\<open>console.error\<close>.
\<close>

theorem getChatHistory_propagates_read_failure:
  "fst (getChatHistory exampleAccount
          (setStorage (emptyBackend\<lparr>getThrows := True\<rparr>) localStorage))
     = Inl BackendReadFailure
   \<and> setChatHistory exampleAccount \<lparr>chat = Some []\<rparr>
        (setStorage (emptyBackend\<lparr>updateRejects := True\<rparr>) localStorage)
     = (Inr (),
        setStorage (emptyBackend\<lparr>updateRejects := True,
                      updateCalls := [(KEY_LOCAL_HISTORY, Some [(''ep-u1'', \<lparr>chat = Some []\<rparr>)])]\<rparr>)
          localStorage)
   \<and> console (snd (setChatHistory exampleAccount \<lparr>chat = Some []\<rparr>
        (setStorage (emptyBackend\<lparr>updateRejects := True\<rparr>) localStorage))) = []
   \<and> persisted (snd (setChatHistory exampleAccount \<lparr>chat = Some []\<rparr>
        (setStorage (emptyBackend\<lparr>updateRejects := True\<rparr>) localStorage))) = None"
proof -
  let ?rejecting = "setStorage (emptyBackend\<lparr>updateRejects := True\<rparr>) localStorage"
  have read: "fst (getChatHistory exampleAccount
          (setStorage (emptyBackend\<lparr>getThrows := True\<rparr>) localStorage))
      = Inl BackendReadFailure"
    by (simp add: getChatHistory_def storage_get_def storage_def setStorage_def
        convertToAsyncStore_def AsyncMemento_get_def Memento_get_def)
  have unlogged: "setChatHistory exampleAccount \<lparr>chat = Some []\<rparr> ?rejecting
      = (Inr (),
         setStorage (emptyBackend\<lparr>updateRejects := True,
                       updateCalls := [(KEY_LOCAL_HISTORY, Some [(''ep-u1'', \<lparr>chat = Some []\<rparr>)])]\<rparr>)
           localStorage)"
    by (simp add: setChatHistory_def setChatHistory_try_def storage_get_def storage_update_def
        storage_def setStorage_def convertToAsyncStore_def AsyncMemento_get_def
        AsyncMemento_update_def Memento_get_def Memento_update_def emptyBackend_def
        catch_console_def localStorage_def key_exampleAccount)
  have quiet: "console (snd (setChatHistory exampleAccount \<lparr>chat = Some []\<rparr> ?rejecting)) = []"
    by (simp only: unlogged snd_conv, simp add: setStorage_def localStorage_def)
  have lost: "persisted (snd (setChatHistory exampleAccount \<lparr>chat = Some []\<rparr> ?rejecting)) = None"
    by (simp only: unlogged snd_conv,
        simp add: persisted_def setStorage_def convertToAsyncStore_def emptyBackend_def)
  from read unlogged quiet lost show ?thesis by simp
qed

text \<open>
  Claim C6, as amended. A failure of the storage read during \<^verbatim>\<open>getChatHistory\<close>
  is propagated to the caller, with the state untouched; the empty history is the
  default for a missing entry only. \<^verbatim>\<open>setChatHistory\<close> never surfaces a failure:
  it returns normally in every state. A failure of its read, and a write that throws
  at the call, are caught and passed to \<^verbatim>\<open>console.error\<close>; a write whose promise
  rejects is dropped by the adapter and is neither caught nor logged. In all three
  cases the persisted store stays as it was.
\<close>

theorem storage_failures:
  assumes configured: "storageField this = Some am"
  shows "(getThrows (store am) \<longrightarrow>
            getChatHistory authStatus this = (Inl BackendReadFailure, this))
       \<and> fst (setChatHistory authStatus history this) = Inr ()
       \<and> (getThrows (store am) \<longrightarrow>
            snd (setChatHistory authStatus history this)
              = this\<lparr>console := console this @ [BackendReadFailure]\<rparr>)
       \<and> (\<not> getThrows (store am) \<and> updateThrows (store am) \<longrightarrow>
            console (snd (setChatHistory authStatus history this))
              = console this @ [BackendWriteFailure]
          \<and> persisted (snd (setChatHistory authStatus history this)) = persisted this)
       \<and> (\<not> getThrows (store am) \<and> \<not> updateThrows (store am) \<and> updateRejects (store am) \<longrightarrow>
            console (snd (setChatHistory authStatus history this)) = console this
          \<and> persisted (snd (setChatHistory authStatus history this)) = persisted this)"
proof -
  have read: "getThrows (store am) \<longrightarrow>
      getChatHistory authStatus this = (Inl BackendReadFailure, this)"
    using configured by (simp add: getChatHistory_def storage_get_configured)
  have quiet: "fst (setChatHistory authStatus history this) = Inr ()"
    by (simp add: setChatHistory_def fst_catch_console)
  have caught_read: "getThrows (store am) \<longrightarrow>
      snd (setChatHistory authStatus history this)
        = this\<lparr>console := console this @ [BackendReadFailure]\<rparr>"
    using configured
    by (simp add: setChatHistory_def setChatHistory_try_read_failure catch_console_simps)
  have caught_write: "\<not> getThrows (store am) \<and> updateThrows (store am) \<longrightarrow>
      console (snd (setChatHistory authStatus history this))
        = console this @ [BackendWriteFailure]
      \<and> persisted (snd (setChatHistory authStatus history this)) = persisted this"
    using configured persisted_thrown [OF configured]
    by (simp add: setChatHistory_def setChatHistory_try_configured storage_update_thrown
        catch_console_simps)
  have dropped: "\<not> getThrows (store am) \<and> \<not> updateThrows (store am) \<and> updateRejects (store am) \<longrightarrow>
      console (snd (setChatHistory authStatus history this)) = console this
      \<and> persisted (snd (setChatHistory authStatus history this)) = persisted this"
    using configured persisted_thrown [OF configured]
    by (simp add: setChatHistory_def setChatHistory_try_configured storage_update_rejected
        catch_console_simps)
  from read quiet caught_read caught_write dropped show ?thesis by blast
qed

theorem storage_failures_witness:
  "storageField (setStorage (emptyBackend\<lparr>getThrows := True\<rparr>) localStorage)
     = Some (convertToAsyncStore (emptyBackend\<lparr>getThrows := True\<rparr>))
   \<and> getThrows (store (convertToAsyncStore (emptyBackend\<lparr>getThrows := True\<rparr>)))
   \<and> getChatHistory exampleAccount (setStorage (emptyBackend\<lparr>getThrows := True\<rparr>) localStorage)
       = (Inl BackendReadFailure, setStorage (emptyBackend\<lparr>getThrows := True\<rparr>) localStorage)
   \<and> fst (setChatHistory exampleAccount \<lparr>chat = Some []\<rparr>
            (setStorage (emptyBackend\<lparr>getThrows := True\<rparr>) localStorage)) = Inr ()
   \<and> console (snd (setChatHistory exampleAccount \<lparr>chat = Some []\<rparr>
            (setStorage (emptyBackend\<lparr>getThrows := True\<rparr>) localStorage)))
       = [BackendReadFailure]
   \<and> storageField (setStorage (emptyBackend\<lparr>updateThrows := True\<rparr>) localStorage)
       = Some (convertToAsyncStore (emptyBackend\<lparr>updateThrows := True\<rparr>))
   \<and> updateThrows (store (convertToAsyncStore (emptyBackend\<lparr>updateThrows := True\<rparr>)))
   \<and> console (snd (setChatHistory exampleAccount \<lparr>chat = Some []\<rparr>
            (setStorage (emptyBackend\<lparr>updateThrows := True\<rparr>) localStorage)))
       = [BackendWriteFailure]
   \<and> storageField (setStorage (emptyBackend\<lparr>updateRejects := True\<rparr>) localStorage)
       = Some (convertToAsyncStore (emptyBackend\<lparr>updateRejects := True\<rparr>))
   \<and> updateRejects (store (convertToAsyncStore (emptyBackend\<lparr>updateRejects := True\<rparr>)))
   \<and> console (snd (setChatHistory exampleAccount \<lparr>chat = Some []\<rparr>
            (setStorage (emptyBackend\<lparr>updateRejects := True\<rparr>) localStorage)))
       = []"
proof -
  let ?r = "emptyBackend\<lparr>getThrows := True\<rparr>"
  let ?t = "emptyBackend\<lparr>updateThrows := True\<rparr>"
  let ?j = "emptyBackend\<lparr>updateRejects := True\<rparr>"
  have configured: "\<And>b. storageField (setStorage b localStorage) = Some (convertToAsyncStore b)"
    by (rule storageField_example)
  have flags: "getThrows (store (convertToAsyncStore ?r))"
      "\<not> getThrows (store (convertToAsyncStore ?t))"
      "updateThrows (store (convertToAsyncStore ?t))"
      "\<not> getThrows (store (convertToAsyncStore ?j))"
      "\<not> updateThrows (store (convertToAsyncStore ?j))"
      "updateRejects (store (convertToAsyncStore ?j))"
    by (simp_all add: convertToAsyncStore_def emptyBackend_def)
  have quiet: "\<And>b. console (setStorage b localStorage) = []"
    by (simp add: setStorage_def localStorage_def)
  from storage_failures [OF configured [of ?r], of exampleAccount "\<lparr>chat = Some []\<rparr>"]
       storage_failures [OF configured [of ?t], of exampleAccount "\<lparr>chat = Some []\<rparr>"]
       storage_failures [OF configured [of ?j], of exampleAccount "\<lparr>chat = Some []\<rparr>"]
  show ?thesis using flags by (simp add: configured quiet)
qed

section \<open>Deleting a chat\<close>

text \<open>
  Claim C7 says that deleting a chat that the account does not have leaves the stored
  history of the account unchanged. \<^verbatim>\<open>deleteChatHistory\<close> reads through
  \<^verbatim>\<open>getChatHistory\<close>, which migrates, and writes what it read: in the example
  store, whose one message has no \<^verbatim>\<open>model\<close>, deleting the absent chat
  \<^verbatim>\<open>c2\<close> replaces the stored transcript of \<^verbatim>\<open>c1\<close> by its migrated form.
\<close>

theorem deleteChatHistory_migrates_entry:
  "storedEntry (setStorage (exampleBackend (Some (exampleStore (Some ''gpt-4'') None))) localStorage)
       ''ep-u1''
     = Some \<lparr>chat = Some [(''c1'', Some (exampleTranscript (Some ''gpt-4'') None))]\<rparr>
   \<and> map_of [(''c1'', Some (exampleTranscript (Some ''gpt-4'') None))] ''c2'' = None
   \<and> storedEntry
        (snd (deleteChatHistory exampleAccount ''c2''
               (setStorage (exampleBackend (Some (exampleStore (Some ''gpt-4'') None)))
                  localStorage)))
        ''ep-u1''
     = Some \<lparr>chat = Some [(''c1'', Some (exampleTranscript (Some ''gpt-4'') (Some ''gpt-4'')))]\<rparr>
   \<and> exampleTranscript (Some ''gpt-4'') (Some ''gpt-4'') \<noteq> exampleTranscript (Some ''gpt-4'') None"
proof -
  let ?b = "exampleBackend (Some (exampleStore (Some ''gpt-4'') None))"
  have op: "operational (setStorage ?b localStorage)"
    by (simp add: operational_example wf_stored_def wf_exampleStore)
  have before: "storedEntry (setStorage ?b localStorage) ''ep-u1''
      = Some \<lparr>chat = Some [(''c1'', Some (exampleTranscript (Some ''gpt-4'') None))]\<rparr>"
    by (simp add: storedEntry_example entry_exampleStore)
  have result: "migrated (persisted (setStorage ?b localStorage))
      = Some (exampleStore (Some ''gpt-4'') (Some ''gpt-4''))"
    by (simp add: persisted_example migrated_Some wf_exampleStore changed_exampleStore
        spec_exampleStore truthy_def nullish_def)
  have got: "accountHistory (Some (exampleStore (Some ''gpt-4'') (Some ''gpt-4''))) ''ep-u1''
      = \<lparr>chat = Some [(''c1'', Some (exampleTranscript (Some ''gpt-4'') (Some ''gpt-4'')))]\<rparr>"
    by (simp add: accountHistory_def nullish_def entry_exampleStore)
  have "persisted (snd (deleteChatHistory exampleAccount ''c2'' (setStorage ?b localStorage)))
      = Some [(''ep-u1'',
               \<lparr>chat = Some [(''c1'', Some (exampleTranscript (Some ''gpt-4'') (Some ''gpt-4'')))]\<rparr>)]"
    by (simp add: deleteChatHistory_operational(2) [OF op] got result key_exampleAccount
        update_exampleStore)
  then have after: "storedEntry
        (snd (deleteChatHistory exampleAccount ''c2'' (setStorage ?b localStorage))) ''ep-u1''
      = Some \<lparr>chat = Some [(''c1'', Some (exampleTranscript (Some ''gpt-4'') (Some ''gpt-4'')))]\<rparr>"
    by (simp add: storedEntry_def)
  have differ: "exampleTranscript (Some ''gpt-4'') (Some ''gpt-4'')
      \<noteq> exampleTranscript (Some ''gpt-4'') None"
    by (simp add: exampleTranscript_def)
  from before after differ show ?thesis by simp
qed

text \<open>
  Claim C7, as amended. On an operational backend, let the account's history be what
  \<^verbatim>\<open>getChatHistory\<close> returns for it, the migrated form of its stored entry, with
  chats \<open>c\<close>. After \<^verbatim>\<open>deleteChatHistory\<close> the stored entry of the account holds
  \<open>c\<close> without the chat deleted: its chat identifiers are those of \<open>c\<close> except the
  one deleted, so from the chats \<^verbatim>\<open>{X, Y}\<close> deleting \<^verbatim>\<open>X\<close> leaves exactly
  \<^verbatim>\<open>{Y}\<close>; and when the identifier is not among them, the stored entry is the
  history that \<^verbatim>\<open>getChatHistory\<close> returned.
\<close>

theorem deleteChatHistory_removes_chat:
  assumes op: "operational this"
    and got: "fst (getChatHistory authStatus this) = Inr userHistory"
    and chats: "chat userHistory = Some c"
  shows "fst (deleteChatHistory authStatus chatID this) = Inr ()
       \<and> storedEntry (snd (deleteChatHistory authStatus chatID this))
            (getKeyForAuthStatus authStatus)
           = Some \<lparr>chat = Some (AList.delete chatID c)\<rparr>
       \<and> map fst (AList.delete chatID c) = removeAll chatID (map fst c)
       \<and> (chatID \<notin> fst ` set c \<longrightarrow>
            storedEntry (snd (deleteChatHistory authStatus chatID this))
              (getKeyForAuthStatus authStatus)
            = Some userHistory)"
proof -
  let ?k = "getKeyForAuthStatus authStatus"
  have u: "accountHistory (migrated (persisted this)) ?k = userHistory"
    using got by (simp add: getChatHistory_operational [OF op])
  have "persisted (snd (deleteChatHistory authStatus chatID this)) =
      Some (case migrated (persisted this) of
              Some entries \<Rightarrow> AList.update ?k \<lparr>chat = Some (AList.delete chatID c)\<rparr> entries
            | None \<Rightarrow> [(?k, \<lparr>chat = Some (AList.delete chatID c)\<rparr>)])"
    by (simp add: deleteChatHistory_operational(2) [OF op] u chats)
  then have entry: "storedEntry (snd (deleteChatHistory authStatus chatID this)) ?k
      = Some \<lparr>chat = Some (AList.delete chatID c)\<rparr>"
    by (simp add: storedEntry_def AList.update_conv' split: option.splits)
  have noop: "chatID \<notin> fst ` set c \<longrightarrow>
      storedEntry (snd (deleteChatHistory authStatus chatID this)) ?k = Some userHistory"
    using entry userHistory_eq [OF chats] by (simp add: AList.delete_id)
  from deleteChatHistory_operational(1) [OF op] entry noop show ?thesis
    by (simp add: AList.delete_keys)
qed

theorem deleteChatHistory_removes_chat_witness:
  "operational (setStorage (exampleBackend (Some (twoAccounts (Some ''gpt-4'')))) localStorage)
   \<and> fst (getChatHistory exampleAccount
            (setStorage (exampleBackend (Some (twoAccounts (Some ''gpt-4'')))) localStorage))
       = Inr \<lparr>chat = Some [(''c1'', Some (exampleTranscript (Some ''gpt-4'') (Some ''gpt-4''))),
                           (''c2'', Some (exampleTranscript None (Some ''claude'')))]\<rparr>
   \<and> fst (deleteChatHistory exampleAccount ''c1''
            (setStorage (exampleBackend (Some (twoAccounts (Some ''gpt-4'')))) localStorage))
       = Inr ()
   \<and> storedEntry
        (snd (deleteChatHistory exampleAccount ''c1''
               (setStorage (exampleBackend (Some (twoAccounts (Some ''gpt-4'')))) localStorage)))
        ''ep-u1''
       = Some \<lparr>chat = Some [(''c2'', Some (exampleTranscript None (Some ''claude'')))]\<rparr>"
proof -
  let ?ls = "setStorage (exampleBackend (Some (twoAccounts (Some ''gpt-4'')))) localStorage"
  let ?c = "[(''c1'', Some (exampleTranscript (Some ''gpt-4'') (Some ''gpt-4''))),
             (''c2'', Some (exampleTranscript None (Some ''claude'')))]"
  have op: "operational ?ls"
    by (simp add: operational_example wf_stored_def wf_twoAccounts)
  have kept: "migrated (persisted ?ls) = Some (twoAccounts (Some ''gpt-4''))"
    by (simp add: persisted_example migrated_Some wf_twoAccounts changed_twoAccounts truthy_def)
  have got: "fst (getChatHistory exampleAccount ?ls) = Inr \<lparr>chat = Some ?c\<rparr>"
    by (simp add: getChatHistory_operational [OF op] kept key_exampleAccount accountHistory_def
        nullish_def entries_twoAccounts)
  have chats: "chat \<lparr>chat = Some ?c\<rparr> = Some ?c" by simp
  from deleteChatHistory_removes_chat [OF op got chats, of "''c1''"]
  show ?thesis using op got by (simp add: key_exampleAccount)
qed

section \<open>Isolation of accounts\<close>

text \<open>
  Claim C8 says that operations on one account never change the stored entry of
  another. Two accounts share a key when the hyphen falls differently
  (\<^verbatim>\<open>ep\<close> with \<^verbatim>\<open>u1-x\<close>, and \<^verbatim>\<open>ep-u1\<close> with \<^verbatim>\<open>x\<close>), and then
  \<^verbatim>\<open>setChatHistory\<close> for the one overwrites the entry of the other; and
  \<^verbatim>\<open>deleteChatHistory\<close> for one account writes back the migrated store, in which
  the entry of another account has its messages migrated.
\<close>

theorem other_account_is_touched:
  "\<lparr>endpoint = ''ep'', username = ''u1-x''\<rparr> \<noteq> \<lparr>endpoint = ''ep-u1'', username = ''x''\<rparr>
   \<and> storedEntry
        (setStorage (exampleBackend (Some [(''ep-u1-x'',
            \<lparr>chat = Some [(''c1'', Some (exampleTranscript None (Some ''claude'')))]\<rparr>)])) localStorage)
        (getKeyForAuthStatus \<lparr>endpoint = ''ep-u1'', username = ''x''\<rparr>)
       = Some \<lparr>chat = Some [(''c1'', Some (exampleTranscript None (Some ''claude'')))]\<rparr>
   \<and> storedEntry
        (snd (setChatHistory \<lparr>endpoint = ''ep'', username = ''u1-x''\<rparr> \<lparr>chat = Some []\<rparr>
          (setStorage (exampleBackend (Some [(''ep-u1-x'',
            \<lparr>chat = Some [(''c1'', Some (exampleTranscript None (Some ''claude'')))]\<rparr>)])) localStorage)))
        (getKeyForAuthStatus \<lparr>endpoint = ''ep-u1'', username = ''x''\<rparr>)
       = Some \<lparr>chat = Some []\<rparr>
   \<and> storedEntry (setStorage (exampleBackend (Some (twoAccounts None))) localStorage)
        (getKeyForAuthStatus otherAccount)
       = Some \<lparr>chat = Some [(''c1'', Some (exampleTranscript (Some ''gpt-4'') None))]\<rparr>
   \<and> storedEntry
        (snd (deleteChatHistory exampleAccount ''c1''
               (setStorage (exampleBackend (Some (twoAccounts None))) localStorage)))
        (getKeyForAuthStatus otherAccount)
       = Some \<lparr>chat = Some [(''c1'', Some (exampleTranscript (Some ''gpt-4'') (Some ''gpt-4'')))]\<rparr>"
proof -
  let ?hB = "\<lparr>chat = Some [(''c1'', Some (exampleTranscript None (Some ''claude'')))]\<rparr>"
  let ?shared = "setStorage (exampleBackend (Some [(''ep-u1-x'', ?hB)])) localStorage"
  let ?two = "setStorage (exampleBackend (Some (twoAccounts None))) localStorage"
  have distinct_accounts:
    "\<lparr>endpoint = ''ep'', username = ''u1-x''\<rparr> \<noteq> \<lparr>endpoint = ''ep-u1'', username = ''x''\<rparr>"
    by simp
  have keyA: "getKeyForAuthStatus \<lparr>endpoint = ''ep'', username = ''u1-x''\<rparr> = ''ep-u1-x''"
    by (simp add: getKeyForAuthStatus_def)
  have keyB: "getKeyForAuthStatus \<lparr>endpoint = ''ep-u1'', username = ''x''\<rparr> = ''ep-u1-x''"
    by (simp add: getKeyForAuthStatus_def)
  have before1: "storedEntry ?shared ''ep-u1-x'' = Some ?hB"
    by (simp add: storedEntry_example)
  have field1: "storageField ?shared = Some (convertToAsyncStore (exampleBackend (Some [(''ep-u1-x'', ?hB)])))"
    by (rule storageField_example)
  have flags1: "\<not> getThrows (store (convertToAsyncStore (exampleBackend (Some [(''ep-u1-x'', ?hB)]))))"
      "\<not> updateThrows (store (convertToAsyncStore (exampleBackend (Some [(''ep-u1-x'', ?hB)]))))"
      "\<not> updateRejects (store (convertToAsyncStore (exampleBackend (Some [(''ep-u1-x'', ?hB)]))))"
    by (simp_all add: convertToAsyncStore_def exampleBackend_def)
  have after1: "storedEntry
      (snd (setChatHistory \<lparr>endpoint = ''ep'', username = ''u1-x''\<rparr> \<lparr>chat = Some []\<rparr> ?shared))
      ''ep-u1-x'' = Some \<lparr>chat = Some []\<rparr>"
    by (simp add: setChatHistory_accepted [OF field1 flags1] storedEntry_written [OF field1]
        persisted_example keyA)
  have op2: "operational ?two"
    by (simp add: operational_example wf_stored_def wf_twoAccounts)
  have before2: "storedEntry ?two ''ep-u2''
      = Some \<lparr>chat = Some [(''c1'', Some (exampleTranscript (Some ''gpt-4'') None))]\<rparr>"
    by (simp add: storedEntry_example entries_twoAccounts)
  have result: "migrated (persisted ?two) = Some (twoAccounts (Some ''gpt-4''))"
    by (simp add: persisted_example migrated_Some wf_twoAccounts changed_twoAccounts
        spec_twoAccounts truthy_def)
  have got: "accountHistory (Some (twoAccounts (Some ''gpt-4''))) ''ep-u1''
      = \<lparr>chat = Some [(''c1'', Some (exampleTranscript (Some ''gpt-4'') (Some ''gpt-4''))),
                      (''c2'', Some (exampleTranscript None (Some ''claude'')))]\<rparr>"
    by (simp add: accountHistory_def nullish_def entries_twoAccounts)
  have "persisted (snd (deleteChatHistory exampleAccount ''c1'' ?two))
      = Some (AList.update ''ep-u1''
               \<lparr>chat = Some [(''c2'', Some (exampleTranscript None (Some ''claude'')))]\<rparr>
               (twoAccounts (Some ''gpt-4'')))"
    by (simp add: deleteChatHistory_operational(2) [OF op2] got result key_exampleAccount)
  then have after2: "storedEntry (snd (deleteChatHistory exampleAccount ''c1'' ?two)) ''ep-u2''
      = Some \<lparr>chat = Some [(''c1'', Some (exampleTranscript (Some ''gpt-4'') (Some ''gpt-4'')))]\<rparr>"
    by (simp add: storedEntry_def AList.update_conv' entries_twoAccounts)
  from distinct_accounts before1 after1 before2 after2 show ?thesis
    by (simp only: keyB key_otherAccount simp_thms)
qed

text \<open>
  Claim C8, as amended. For two accounts with different keys, \<^verbatim>\<open>setChatHistory\<close>
  and \<^verbatim>\<open>removeChatHistory\<close> applied to the one leave the stored entry of the other
  unchanged, in every state. \<^verbatim>\<open>deleteChatHistory\<close> applied to the one, on an
  operational backend, leaves the stored entry of the other unchanged when no message
  of the store needs migration, and else leaves it in its migrated form.
\<close>

theorem other_accounts_untouched:
  assumes other: "getKeyForAuthStatus b \<noteq> getKeyForAuthStatus a"
  shows "storedEntry (snd (setChatHistory a history this)) (getKeyForAuthStatus b)
           = storedEntry this (getKeyForAuthStatus b)
       \<and> storedEntry (snd (removeChatHistory a this)) (getKeyForAuthStatus b)
           = storedEntry this (getKeyForAuthStatus b)
       \<and> (operational this \<longrightarrow>
            storedEntry (snd (deleteChatHistory a chatID this)) (getKeyForAuthStatus b)
              = (if changed_stored (persisted this) = 0
                 then storedEntry this (getKeyForAuthStatus b)
                 else map_option spec_userHistory (storedEntry this (getKeyForAuthStatus b))))"
proof -
  let ?kb = "getKeyForAuthStatus b"
  have setting: "\<And>h. storedEntry (snd (setChatHistory a h this)) ?kb = storedEntry this ?kb"
    by (rule setChatHistory_frame [OF other])
  have removing: "storedEntry (snd (removeChatHistory a this)) ?kb = storedEntry this ?kb"
    by (simp add: removeChatHistory_eq setting)
  have deleting: "operational this \<longrightarrow>
      storedEntry (snd (deleteChatHistory a chatID this)) ?kb
        = (if changed_stored (persisted this) = 0 then storedEntry this ?kb
           else map_option spec_userHistory (storedEntry this ?kb))"
  proof
    assume op: "operational this"
    then have wf: "wf_stored (persisted this)" by (simp add: operational_def)
    have "storedEntry (snd (deleteChatHistory a chatID this)) ?kb
        = (case migrated (persisted this) of None \<Rightarrow> None | Some entries \<Rightarrow> map_of entries ?kb)"
      using other
      by (simp add: storedEntry_def deleteChatHistory_operational(2) [OF op] AList.update_conv'
          split: option.splits)
    then show "storedEntry (snd (deleteChatHistory a chatID this)) ?kb
        = (if changed_stored (persisted this) = 0 then storedEntry this ?kb
           else map_option spec_userHistory (storedEntry this ?kb))"
      by (simp add: storedEntry_migrated [OF wf] storedEntry_def)
  qed
  from setting removing deleting show ?thesis by blast
qed

theorem other_accounts_untouched_witness:
  "getKeyForAuthStatus otherAccount \<noteq> getKeyForAuthStatus exampleAccount
   \<and> operational (setStorage (exampleBackend (Some (twoAccounts (Some ''gpt-4'')))) localStorage)
   \<and> changed_stored
        (persisted (setStorage (exampleBackend (Some (twoAccounts (Some ''gpt-4'')))) localStorage)) = 0
   \<and> storedEntry (setStorage (exampleBackend (Some (twoAccounts (Some ''gpt-4'')))) localStorage)
        (getKeyForAuthStatus otherAccount)
       = Some \<lparr>chat = Some [(''c1'', Some (exampleTranscript (Some ''gpt-4'') (Some ''gpt-4'')))]\<rparr>
   \<and> storedEntry
        (snd (setChatHistory exampleAccount \<lparr>chat = Some []\<rparr>
               (setStorage (exampleBackend (Some (twoAccounts (Some ''gpt-4'')))) localStorage)))
        (getKeyForAuthStatus otherAccount)
       = Some \<lparr>chat = Some [(''c1'', Some (exampleTranscript (Some ''gpt-4'') (Some ''gpt-4'')))]\<rparr>
   \<and> storedEntry
        (snd (removeChatHistory exampleAccount
               (setStorage (exampleBackend (Some (twoAccounts (Some ''gpt-4'')))) localStorage)))
        (getKeyForAuthStatus otherAccount)
       = Some \<lparr>chat = Some [(''c1'', Some (exampleTranscript (Some ''gpt-4'') (Some ''gpt-4'')))]\<rparr>
   \<and> storedEntry
        (snd (deleteChatHistory exampleAccount ''c1''
               (setStorage (exampleBackend (Some (twoAccounts (Some ''gpt-4'')))) localStorage)))
        (getKeyForAuthStatus otherAccount)
       = Some \<lparr>chat = Some [(''c1'', Some (exampleTranscript (Some ''gpt-4'') (Some ''gpt-4'')))]\<rparr>"
proof -
  let ?ls = "setStorage (exampleBackend (Some (twoAccounts (Some ''gpt-4'')))) localStorage"
  have other: "getKeyForAuthStatus otherAccount \<noteq> getKeyForAuthStatus exampleAccount"
    by (simp add: key_exampleAccount key_otherAccount)
  have op: "operational ?ls"
    by (simp add: operational_example wf_stored_def wf_twoAccounts)
  have unchanged: "changed_stored (persisted ?ls) = 0"
    by (simp add: persisted_example changed_stored_def changed_twoAccounts truthy_def)
  have before: "storedEntry ?ls (getKeyForAuthStatus otherAccount)
      = Some \<lparr>chat = Some [(''c1'', Some (exampleTranscript (Some ''gpt-4'') (Some ''gpt-4'')))]\<rparr>"
    by (simp add: storedEntry_example key_otherAccount entries_twoAccounts)
  from other_accounts_untouched [OF other, of "\<lparr>chat = Some []\<rparr>" ?ls "''c1''"]
  show ?thesis using other op unchanged before by simp
qed

section \<open>Before \<^verbatim>\<open>setStorage\<close>\<close>

text \<open>
  Claim C9 says that every operation fails with the error of the getter
  \<^verbatim>\<open>storage\<close> when no backend is configured. In \<^verbatim>\<open>setChatHistory\<close> the getter is
  read inside the \<^verbatim>\<open>try\<close> block, whose handler logs the error: on the fresh
  singleton the call returns normally and leaves the error on the console.
\<close>

theorem setChatHistory_before_setStorage_returns:
  "setChatHistory exampleAccount \<lparr>chat = Some []\<rparr> localStorage
     = (Inr (), localStorage\<lparr>console := [NotInitialized]\<rparr>)"
  by (simp add: setChatHistory_def setChatHistory_try_def storage_get_def storage_def
      localStorage_def catch_console_def)

text \<open>
  Claim C9, as amended. Before \<^verbatim>\<open>setStorage\<close>, the reading operations
  \<^verbatim>\<open>getChatHistory\<close> and \<^verbatim>\<open>get\<close>, and \<^verbatim>\<open>deleteChatHistory\<close>, which reads first,
  fail with the error \<^verbatim>\<open>LocalStorage not initialized\<close> and change nothing. The
  operations whose body is a \<^verbatim>\<open>try\<close> block with a logging handler,
  \<^verbatim>\<open>setChatHistory\<close>, \<^verbatim>\<open>removeChatHistory\<close> and \<^verbatim>\<open>set\<close>, return normally: the
  error is passed to \<^verbatim>\<open>console.error\<close> and nothing is stored.
\<close>

theorem before_setStorage:
  assumes unset: "storageField this = None"
  shows "getChatHistory authStatus this = (Inl NotInitialized, this)
       \<and> deleteChatHistory authStatus chatID this = (Inl NotInitialized, this)
       \<and> get key this = (Inl NotInitialized, this)
       \<and> setChatHistory authStatus history this
           = (Inr (), this\<lparr>console := console this @ [NotInitialized]\<rparr>)
       \<and> removeChatHistory authStatus this
           = (Inr (), this\<lparr>console := console this @ [NotInitialized]\<rparr>)
       \<and> set_value key v this
           = (Inr (), this\<lparr>console := console this @ [NotInitialized]\<rparr>)"
proof -
  have reading: "getChatHistory authStatus this = (Inl NotInitialized, this)"
    by (simp add: getChatHistory_def storage_get_unconfigured [OF unset])
  have deleting: "deleteChatHistory authStatus chatID this = (Inl NotInitialized, this)"
    by (simp add: deleteChatHistory_def reading)
  have getting: "get key this = (Inl NotInitialized, this)"
    by (simp add: get_def storage_get_unconfigured [OF unset])
  have setting: "\<And>h. setChatHistory authStatus h this
      = (Inr (), this\<lparr>console := console this @ [NotInitialized]\<rparr>)"
    by (simp add: setChatHistory_def setChatHistory_try_def storage_get_unconfigured [OF unset]
        catch_console_simps)
  have removing: "removeChatHistory authStatus this
      = (Inr (), this\<lparr>console := console this @ [NotInitialized]\<rparr>)"
    by (simp add: removeChatHistory_def setting catch_console_simps)
  have storing: "set_value key v this
      = (Inr (), this\<lparr>console := console this @ [NotInitialized]\<rparr>)"
    by (simp add: set_value_def storage_update_unconfigured [OF unset] catch_console_simps)
  from reading deleting getting setting removing storing show ?thesis by blast
qed

theorem before_setStorage_witness:
  "storageField (localStorage :: stored LocalStorage) = None
   \<and> getChatHistory exampleAccount localStorage = (Inl NotInitialized, localStorage)
   \<and> deleteChatHistory exampleAccount ''c1'' localStorage = (Inl NotInitialized, localStorage)
   \<and> removeChatHistory exampleAccount localStorage
       = (Inr (), localStorage\<lparr>console := [NotInitialized]\<rparr>)"
proof -
  have unset: "storageField (localStorage :: stored LocalStorage) = None"
    by (simp add: localStorage_def)
  have quiet: "console (localStorage :: stored LocalStorage) = []"
    by (simp add: localStorage_def)
  from before_setStorage [OF unset, of exampleAccount "''c1''"]
  show ?thesis using unset quiet by simp
qed

section \<open>Configuring the backend twice\<close>

text \<open>
  Claim C10. \<^verbatim>\<open>setStorage\<close> has no guard against a second call and no way to
  fail: a second call replaces the adapter of the first, the state being the one a
  single call with the second backend leaves, and the getter, \<^verbatim>\<open>get\<close> and
  \<^verbatim>\<open>update\<close> then go to the second backend, \<^verbatim>\<open>update\<close> throwing what that
  backend throws and dropping the promise it returns.
\<close>

theorem setStorage_replaces:
  "setStorage s2 (setStorage s1 this) = setStorage s2 this
   \<and> storage (setStorage s2 (setStorage s1 this)) = Inr (convertToAsyncStore s2)
   \<and> storage_get key d (setStorage s2 (setStorage s1 this)) = Memento_get key d s2
   \<and> storage_update key v (setStorage s2 (setStorage s1 this))
       = (case fst (Memento_update key v s2) of Inl e \<Rightarrow> Inl e | Inr dropped \<Rightarrow> Inr (),
          setStorage (snd (Memento_update key v s2)) this)"
  by (simp add: setStorage_def storage_def storage_get_def storage_update_def
      convertToAsyncStore_def AsyncMemento_get_def AsyncMemento_update_def
      split: prod.splits sum.splits)

theorem setStorage_replaces_witness:
  "fst (getChatHistory exampleAccount
     (setStorage (exampleBackend (Some (exampleStore (Some ''gpt-4'') (Some ''gpt-4''))))
        (setStorage emptyBackend localStorage)))
   = Inr \<lparr>chat = Some [(''c1'', Some (exampleTranscript (Some ''gpt-4'') (Some ''gpt-4'')))]\<rparr>"
proof -
  let ?b = "exampleBackend (Some (exampleStore (Some ''gpt-4'') (Some ''gpt-4'')))"
  have same: "setStorage ?b (setStorage emptyBackend localStorage) = setStorage ?b localStorage"
    using setStorage_replaces [of ?b emptyBackend localStorage] by simp
  have op: "operational (setStorage ?b localStorage)"
    by (simp add: operational_example wf_stored_def wf_exampleStore)
  have kept: "migrated (persisted (setStorage ?b localStorage))
      = Some (exampleStore (Some ''gpt-4'') (Some ''gpt-4''))"
    by (simp add: persisted_example migrated_Some wf_exampleStore changed_exampleStore truthy_def)
  have entry: "accountHistory (Some (exampleStore (Some ''gpt-4'') (Some ''gpt-4'')))
        (getKeyForAuthStatus exampleAccount)
      = \<lparr>chat = Some [(''c1'', Some (exampleTranscript (Some ''gpt-4'') (Some ''gpt-4'')))]\<rparr>"
    by (simp add: accountHistory_def nullish_def getKeyForAuthStatus_def exampleAccount_def
        exampleStore_def)
  show ?thesis
    by (simp add: same getChatHistory_operational [OF op] kept entry)
qed

end
